theory Spec2Isabelle
  imports Complex_Main
begin

section \<open>Python values\<close>

text \<open>
  The layers are Python 2 classes whose constructor arguments and configuration entries
  are dynamically typed. A value is \<open>None\<close>, a bool, an int, a float (a real number
  here: only its comparison with zero and one and the arithmetic of a shape entry are
  ever used), a byte string, a tuple, or a callable (named by the function it is, such
  as \<open>rectifier\<close> or \<open>conv1d_mc0\<close>).
\<close>

datatype pyval =
    PNone
  | PBool bool
  | PInt int
  | PFloat real
  | PStr string
  | PTuple "pyval list"
  | PFun string

text \<open>Python's truth value of an object, as \<open>if v:\<close> and \<open>v or w\<close> test it.\<close>

fun truthy :: "pyval \<Rightarrow> bool" where
  "truthy PNone = False"
| "truthy (PBool b) = b"
| "truthy (PInt i) = (i \<noteq> 0)"
| "truthy (PFloat r) = (r \<noteq> 0)"
| "truthy (PStr s) = (s \<noteq> [])"
| "truthy (PTuple vs) = (vs \<noteq> [])"
| "truthy (PFun f) = True"

text \<open>\<open>a or b\<close>: the left operand when it is truthy, the right one otherwise.\<close>

definition py_or :: "pyval \<Rightarrow> pyval \<Rightarrow> pyval" where
  "py_or a b = (if truthy a then a else b)"

text \<open>
  The exceptions a constructor can raise. The \<open>assert\<close> statements of the source are
  told apart by what they check: the length of \<open>params_hook\<close>
  (\<open>InvalidParameterCountError expected found\<close>), \<open>callable(activation_name)\<close>
  (\<open>NotCallableError\<close>) and \<open>self.group in [1, 2]\<close> (\<open>InvalidGroupError\<close>).
  \<open>UnsupportedInitError\<close> is the \<open>NotImplementedError\<close> raised for an unknown
  \<open>weights_init\<close>, \<open>InvalidBorderModeError\<close> the \<open>RuntimeError\<close> raised for an
  unknown border mode. \<open>EngineError\<close> stands for an exception of the tensor
  engine's own, raised when it refuses the arguments of an operation and its class is
  not fixed here; \<open>NumpyError\<close> likewise for numpy.
\<close>

datatype error =
    TypeError
  | IndexError
  | AttributeError
  | NotCallableError pyval
  | InvalidParameterCountError nat nat
  | InvalidGroupError pyval
  | UnsupportedInitError pyval
  | InvalidBorderModeError pyval
  | UnsupportedActivationError pyval
  | UnsupportedCostError pyval
  | EngineError
  | NumpyError

text \<open>Sequencing of a computation that may raise.\<close>

definition and_then :: "error + 'a \<Rightarrow> ('a \<Rightarrow> error + 'b) \<Rightarrow> error + 'b" where
  "and_then m f = (case m of Inl e \<Rightarrow> Inl e | Inr x \<Rightarrow> f x)"

text \<open>\<open>v[i]\<close> for a constant index \<open>i \<ge> 0\<close>: tuples and strings are subscriptable.\<close>

fun py_index :: "pyval \<Rightarrow> nat \<Rightarrow> error + pyval" where
  "py_index (PTuple vs) i = (if i < length vs then Inr (vs ! i) else Inl IndexError)"
| "py_index (PStr s) i = (if i < length s then Inr (PStr [s ! i]) else Inl IndexError)"
| "py_index v i = Inl TypeError"

text \<open>\<open>v[lo:hi]\<close> for constant bounds \<open>0 \<le> lo \<le> hi\<close>; a slice never raises IndexError.\<close>

fun py_slice :: "pyval \<Rightarrow> nat \<Rightarrow> nat \<Rightarrow> error + pyval" where
  "py_slice (PTuple vs) lo hi = Inr (PTuple (take (hi - lo) (drop lo vs)))"
| "py_slice (PStr s) lo hi = Inr (PStr (take (hi - lo) (drop lo s)))"
| "py_slice v lo hi = Inl TypeError"

text \<open>\<open>s.lower()\<close> on a byte string; any other value has no such attribute.\<close>

definition lower_char :: "char \<Rightarrow> char" where
  "lower_char c =
     (let n = (of_char c :: nat) in if 65 \<le> n \<and> n \<le> 90 then char_of (n + 32) else c)"

fun py_lower :: "pyval \<Rightarrow> error + string" where
  "py_lower (PStr s) = Inr (map lower_char s)"
| "py_lower v = Inl AttributeError"

text \<open>\<open>v == k\<close> for an int literal \<open>k\<close>: bools and floats compare by value.\<close>

fun py_eq_int :: "pyval \<Rightarrow> int \<Rightarrow> bool" where
  "py_eq_int (PInt i) k = (i = k)"
| "py_eq_int (PBool b) k = ((if b then 1 else 0) = k)"
| "py_eq_int (PFloat r) k = (r = of_int k)"
| "py_eq_int v k = False"

text \<open>\<open>v == s\<close> for a string literal \<open>s\<close>.\<close>

definition py_eq_str :: "pyval \<Rightarrow> string \<Rightarrow> bool" where
  "py_eq_str v s = (v = PStr s)"

text \<open>\<open>(k - 1) // 2\<close>, the shift of border mode 'same'.\<close>

fun py_shift :: "pyval \<Rightarrow> error + pyval" where
  "py_shift (PInt k) = Inr (PInt ((k - 1) div 2))"
| "py_shift (PBool b) = Inr (PInt (((if b then 1 else 0) - 1) div 2))"
| "py_shift (PFloat r) = Inr (PFloat (of_int \<lfloor>(r - 1) / 2\<rfloor>))"
| "py_shift v = Inl TypeError"

text \<open>\<open>a + b\<close>.\<close>

fun py_add :: "pyval \<Rightarrow> pyval \<Rightarrow> error + pyval" where
  "py_add (PInt a) (PInt b) = Inr (PInt (a + b))"
| "py_add (PInt a) (PBool b) = Inr (PInt (a + (if b then 1 else 0)))"
| "py_add (PBool a) (PInt b) = Inr (PInt ((if a then 1 else 0) + b))"
| "py_add (PBool a) (PBool b) = Inr (PInt ((if a then 1 else 0) + (if b then 1 else 0)))"
| "py_add (PFloat a) (PFloat b) = Inr (PFloat (a + b))"
| "py_add (PFloat a) (PInt b) = Inr (PFloat (a + of_int b))"
| "py_add (PInt a) (PFloat b) = Inr (PFloat (of_int a + b))"
| "py_add (PFloat a) (PBool b) = Inr (PFloat (a + (if b then 1 else 0)))"
| "py_add (PBool a) (PFloat b) = Inr (PFloat ((if a then 1 else 0) + b))"
| "py_add (PStr a) (PStr b) = Inr (PStr (a @ b))"
| "py_add (PTuple a) (PTuple b) = Inr (PTuple (a @ b))"
| "py_add a b = Inl TypeError"

text \<open>\<open>c / 2\<close> in Python 2: floor division on ints, true division on floats.\<close>

fun py_half :: "pyval \<Rightarrow> error + pyval" where
  "py_half (PInt c) = Inr (PInt (c div 2))"
| "py_half (PBool b) = Inr (PInt 0)"
| "py_half (PFloat r) = Inr (PFloat (r / 2))"
| "py_half v = Inl TypeError"

section \<open>Configuration\<close>

text \<open>
  Modelled from the spec: the base class \<open>Model\<close> (\<open>opendeep.models.model\<close>) is not
  among the sources. Its constructor merges the two dictionaries into \<open>self.args\<close>:
  "any parameter from the config will overwrite the defaults dictionary". A missing
  \<open>config\<close> (\<open>None\<close>) is the empty map.
\<close>

type_synonym pydict = "string \<rightharpoonup> pyval"

definition merge_args :: "pydict \<Rightarrow> pydict \<Rightarrow> pydict" where
  "merge_args config defaults = defaults ++ config"

text \<open>\<open>d.get(k)\<close>: \<open>None\<close> for a missing key.\<close>

definition dict_get :: "pydict \<Rightarrow> string \<Rightarrow> pyval" where
  "dict_get d k = (case d k of None \<Rightarrow> PNone | Some v \<Rightarrow> v)"

section \<open>The tensor engine\<close>

text \<open>
  The symbolic engine (Theano) and the helpers of \<open>opendeep.utils\<close> are outside the
  sources; a call of theirs is recorded as the node it builds. A leaf is a symbolic
  placeholder (\<open>T.fmatrix\<close>, \<open>T.ftensor3\<close>, \<open>T.ftensor4\<close>: rank 2, 3, 4) or a shared
  parameter made by \<open>get_weights_uniform\<close>, \<open>get_weights_gaussian\<close> or \<open>get_bias\<close>,
  and carries the number the engine gave it on allocation, so that two leaves made by
  two calls are never equal. An inner node is the operation applied to its argument
  nodes. Arguments a call leaves out are \<open>None\<close> options.
\<close>

datatype init =
    Uniform "pyval option"
  | Gaussian "pyval option" "pyval option"
  | Bias "pyval option"

datatype slice = Full | UpTo pyval | From pyval | FromTo pyval pyval

datatype node =
    Placeholder nat nat string
  | Shared nat string init pyval
  | Dot node node
  | Transpose node
  | Add node node
  | Dimshuffle node "nat option list"
  | Activation string node
  | Cost string node node
  | SaltAndPepper node pyval
  | Convolve string node node "(string \<times> pyval) list"
  | Subtensor node "slice list"
  | Concatenate "node list" nat
  | DnnPool node pyval pyval
  | MaxPool2d node pyval pyval
  | CrossChannelNorm node

text \<open>\<open>function(inputs=..., outputs=...)\<close>: the compiled callable.\<close>

datatype compiled = Function "node list" node

text \<open>The engine's state: the leaves allocated so far, oldest first.\<close>

type_synonym engine = "node list"

definition fresh_placeholder :: "nat \<Rightarrow> string \<Rightarrow> engine \<Rightarrow> node \<times> engine" where
  "fresh_placeholder rank name s = (let v = Placeholder (length s) rank name in (v, s @ [v]))"

definition fresh_shared :: "string \<Rightarrow> init \<Rightarrow> pyval \<Rightarrow> engine \<Rightarrow> node \<times> engine" where
  "fresh_shared name i shape s = (let v = Shared (length s) name i shape in (v, s @ [v]))"

fun is_placeholder :: "node \<Rightarrow> bool" where
  "is_placeholder (Placeholder n r x) = True"
| "is_placeholder v = False"

fun is_shared :: "node \<Rightarrow> bool" where
  "is_shared (Shared n x i sh) = True"
| "is_shared v = False"

definition placeholders :: "engine \<Rightarrow> node list" where
  "placeholders s = filter is_placeholder s"

definition shareds :: "engine \<Rightarrow> node list" where
  "shareds s = filter is_shared s"

text \<open>
  A Python function, as far as a call of it goes: its parameters in order, how many of
  them (the leading ones) have no default, whether it takes \<open>**kwargs\<close>, and the
  error its body raises, if any, when it is handed two tensors and keyword values as a
  convolution is.
\<close>

record pyfunction =
  parameters :: "string list"
  required :: nat
  var_keywords :: bool
  refuses :: "node \<Rightarrow> node \<Rightarrow> (string \<times> pyval) list \<Rightarrow> error option"

text \<open>
  Modelled from the spec: the name registries of \<open>opendeep.utils.activation\<close> and
  \<open>opendeep.utils.cost\<close> are not among the sources. A known name yields its function,
  "unknown name fails". The known names are a parameter, as is the module flag
  \<open>has_cudnn\<close>, set when the module is imported. What lies outside the sources and
  decides whether a constructor returns is a parameter too: the functions that can be
  handed over as \<open>convolution\<close> (\<open>callables\<close>, by name), and what numpy does with
  an entry of an array that is not a one-dimensional array of 64-bit ints
  (\<open>numpy_get\<close> for \<open>a[i]\<close>, \<open>numpy_halve\<close> for \<open>a[i] = a[i] / 2\<close>, on the
  value the array was made from).
\<close>

record env =
  activation_names :: "string list"
  cost_names :: "string list"
  has_cudnn :: bool
  callables :: "string \<Rightarrow> pyfunction"
  numpy_get :: "pyval \<Rightarrow> nat \<Rightarrow> error + pyval"
  numpy_halve :: "pyval \<Rightarrow> nat \<Rightarrow> error + pyval"

definition get_activation_function :: "env \<Rightarrow> pyval \<Rightarrow> error + string" where
  "get_activation_function r v =
     (case v of
        PStr n \<Rightarrow> if n \<in> set (activation_names r) then Inr n
                  else Inl (UnsupportedActivationError v)
      | _ \<Rightarrow> Inl (UnsupportedActivationError v))"

definition get_cost_function :: "env \<Rightarrow> pyval \<Rightarrow> error + string" where
  "get_cost_function r v =
     (case v of
        PStr n \<Rightarrow> if n \<in> set (cost_names r) then Inr n
                  else Inl (UnsupportedCostError v)
      | _ \<Rightarrow> Inl (UnsupportedCostError v))"

text \<open>
  Python's binding of the arguments of a call to the parameters of a function (one
  without \<open>*args\<close>): \<open>npos\<close> positional arguments and the keyword arguments
  \<open>names\<close>. There are no more positional arguments than parameters; a keyword names
  a parameter that no positional argument has filled, or any name at all when the
  function takes \<open>**kwargs\<close>; every parameter without a default is filled.
\<close>

definition binds :: "pyfunction \<Rightarrow> nat \<Rightarrow> string list \<Rightarrow> bool" where
  "binds fn npos names =
     (npos \<le> length (parameters fn) \<and>
      list_all (\<lambda>k. k \<notin> set (take npos (parameters fn)) \<and>
                    (k \<in> set (parameters fn) \<or> var_keywords fn)) names \<and>
      list_all (\<lambda>p. p \<in> set (take npos (parameters fn)) \<or> p \<in> set names)
        (take (required fn) (parameters fn)))"

text \<open>
  Calling a value as the convolution, with the image and the kernels either as the two
  positional arguments (\<open>by_name = []\<close>) or as keyword arguments of the names
  \<open>by_name\<close>, and with the keyword values \<open>kw\<close>. Only a callable can be called; a
  call that does not bind raises TypeError; the function's body may refuse the
  arguments; otherwise the call builds the node.
\<close>

definition call_convolution ::
  "env \<Rightarrow> pyval \<Rightarrow> node \<Rightarrow> node \<Rightarrow> string list \<Rightarrow> (string \<times> pyval) list
     \<Rightarrow> error + node" where
  "call_convolution r cv img kerns by_name kw =
     (case cv of
        PFun f \<Rightarrow>
          (if \<not> binds (callables r f) (2 - length by_name) (by_name @ map fst kw)
           then Inl TypeError
           else (case refuses (callables r f) img kerns kw of
                   Some e \<Rightarrow> Inl e
                 | None \<Rightarrow> Inr (Convolve f img kerns kw)))
      | _ \<Rightarrow> Inl TypeError)"

text \<open>
  A hook that is a sequence (\<open>params_hook\<close>) counts as given when \<open>if hook:\<close> holds:
  it is not \<open>None\<close> and not empty.
\<close>

definition hook_given :: "'a list option \<Rightarrow> bool" where
  "hook_given h = (case h of None \<Rightarrow> False | Some ps \<Rightarrow> ps \<noteq> [])"

definition hook_items :: "'a list option \<Rightarrow> 'a list" where
  "hook_items h = (case h of None \<Rightarrow> [] | Some ps \<Rightarrow> ps)"

section \<open>Constructor arguments and layer objects\<close>

text \<open>
  The keyword arguments every constructor takes. An \<open>inputs_hook\<close> or
  \<open>hiddens_hook\<close> is \<open>None\<close> or a pair \<open>(shape, tensor)\<close>; a \<open>params_hook\<close> is
  \<open>None\<close> or a sequence of tensors. An argument left out is \<open>PNone\<close>.
\<close>

record hook_args =
  config :: pydict
  defaults :: pydict
  inputs_hook :: "(pyval \<times> node) option"
  params_hook :: "node list option"

record dae_args = hook_args +
  hiddens_hook :: "(pyval \<times> node) option"
  input_size :: pyval
  hidden_size :: pyval
  corruption_level :: pyval
  hidden_activation :: pyval
  visible_activation :: pyval
  cost_function :: pyval

record layer_args = hook_args +
  input_shape :: pyval
  filter_shape :: pyval
  bias_init :: pyval
  activation :: pyval
  convolution :: pyval

record conv_args = layer_args +
  weights_init :: pyval
  weights_interval :: pyval
  weights_mean :: pyval
  weights_std :: pyval
  border_mode :: pyval

record conv1d_args = conv_args +
  stride :: pyval

record conv2d_args = conv_args +
  strides :: pyval

record convpool_args = layer_args +
  convstride :: pyval
  padsize :: pyval
  group :: pyval
  poolsize :: pyval
  poolstride :: pyval
  local_response_normalization :: pyval

text \<open>The attributes a constructor stores on \<open>self\<close>.\<close>

record model =
  params :: "node list"

record dae = model +
  inputs :: "node list"
  train_cost :: node
  hiddens :: node
  recon_predict :: node
  f_predict :: compiled

record feedforward = model +
  input :: node

record conv = feedforward +
  "output" :: node

text \<open>
  \<open>self.args\<close>, as \<open>super().__init__(config=config, defaults=defaults)\<close> leaves it.
\<close>

definition self_args :: "'a hook_args_scheme \<Rightarrow> pydict" where
  "self_args a = merge_args (config a) (defaults a)"

section \<open>The denoising autoencoder (Tutorial01\_Modular\_DAE.py)\<close>

definition DenoisingAutoencoder_defaults :: pydict where
  "DenoisingAutoencoder_defaults = map_of
     [(''input_size'', PInt (28 * 28)),
      (''hidden_size'', PInt 1000),
      (''corruption_level'', PFloat (4 / 10)),
      (''hidden_activation'', PStr ''tanh''),
      (''visible_activation'', PStr ''sigmoid''),
      (''cost_function'', PStr ''binary_crossentropy'')]"

text \<open>
  Lines 81 to 89: the three parameters, taken from the hook when it is given (after the
  assertion on its length) and allocated otherwise, in the order \<open>W\<close>, \<open>b0\<close>, \<open>b1\<close>.
\<close>

definition dae_params ::
  "node list option \<Rightarrow> pyval \<Rightarrow> pyval \<Rightarrow> engine \<Rightarrow> error + ((node \<times> node \<times> node) \<times> engine)" where
  "dae_params hook input_size' hidden_size' s =
     (if hook_given hook then
        (let ps = hook_items hook in
         if length ps = 3 then Inr ((ps ! 0, ps ! 1, ps ! 2), s)
         else Inl (InvalidParameterCountError 3 (length ps)))
      else
        (let (W, s1) = fresh_shared ''W'' (Uniform None) (PTuple [input_size', hidden_size']) s;
             (b0, s2) = fresh_shared ''b0'' (Bias None) input_size' s1;
             (b1, s3) = fresh_shared ''b1'' (Bias None) hidden_size' s2
         in Inr ((W, b0, b1), s3)))"

definition DenoisingAutoencoder_init ::
  "env \<Rightarrow> dae_args \<Rightarrow> engine \<Rightarrow> error + (dae \<times> engine)" where
  "DenoisingAutoencoder_init r a s =
     (let args = self_args a;
          input_size' = (case inputs_hook a of
                           Some h \<Rightarrow> fst h
                         | None \<Rightarrow> py_or (input_size a) (dict_get args ''input_size''));
          hidden_size' = (case hiddens_hook a of
                            Some h \<Rightarrow> fst h
                          | None \<Rightarrow> py_or (hidden_size a) (dict_get args ''hidden_size''));
          corruption_level' = py_or (corruption_level a) (dict_get args ''corruption_level'');
          hidden_act_name = py_or (hidden_activation a) (dict_get args ''hidden_activation'');
          visible_act_name = py_or (visible_activation a) (dict_get args ''visible_activation'');
          cost_func_name = py_or (cost_function a) (dict_get args ''cost_function'')
      in
      and_then (get_activation_function r hidden_act_name) (\<lambda>hidden_activation'.
      and_then (get_activation_function r visible_act_name) (\<lambda>visible_activation'.
      and_then (get_cost_function r cost_func_name) (\<lambda>cost_function'.
      let (x, s1) = (case inputs_hook a of
                       Some h \<Rightarrow> (snd h, s)
                     | None \<Rightarrow> fresh_placeholder 2 ''X'' s)
      in
      and_then (dae_params (params_hook a) input_size' hidden_size' s1) (\<lambda>((W, b0, b1), s2).
      let corrupted_input = SaltAndPepper x corruption_level';
          hiddens' = Activation hidden_activation' (Add (Dot corrupted_input W) b1);
          reconstruction = Activation visible_activation' (Add (Dot hiddens' (Transpose W)) b0);
          self_hiddens = (case hiddens_hook a of
                            Some h \<Rightarrow> snd h
                          | None \<Rightarrow> Activation hidden_activation' (Add (Dot x W) b1));
          self_recon_predict =
            Activation visible_activation' (Add (Dot self_hiddens (Transpose W)) b0)
      in Inr (\<lparr>params = [W, b0, b1],
               inputs = [x],
               train_cost = Cost cost_function' reconstruction x,
               hiddens = self_hiddens,
               recon_predict = self_recon_predict,
               f_predict = (case hiddens_hook a of
                              Some h \<Rightarrow> Function [self_hiddens] self_recon_predict
                            | None \<Rightarrow> Function [x] self_recon_predict)\<rparr>, s2))))))"

section \<open>Convolution layers (convolutional.py)\<close>

definition Conv1D_defaults :: pydict where
  "Conv1D_defaults = map_of
     [(''border_mode'', PStr ''valid''),
      (''weights_init'', PStr ''uniform''),
      (''weights_interval'', PStr ''montreal''),
      (''weights_mean'', PInt 0),
      (''weights_std'', PFloat (5 / 1000)),
      (''bias_init'', PFloat 0),
      (''activation'', PFun ''rectifier''),
      (''convolution'', PFun ''conv1d_mc0'')]"

definition Conv2D_defaults :: pydict where
  "Conv2D_defaults = map_of
     [(''border_mode'', PStr ''valid''),
      (''weights_init'', PStr ''uniform''),
      (''weights_interval'', PStr ''montreal''),
      (''weights_mean'', PInt 0),
      (''weights_std'', PFloat (5 / 1000)),
      (''bias_init'', PFloat 0),
      (''activation'', PFun ''rectifier''),
      (''convolution'', PFun ''conv2d'')]"

text \<open>
  The input block of the three convolution classes (lines 87 to 96, 211 to 220 and 363
  to 369): the same text but for the rank of the placeholder (\<open>T.ftensor3\<close> in
  \<open>Conv1D\<close>, \<open>T.ftensor4\<close> in the others). It yields the input shape, the input
  tensor and the engine's state.
\<close>

definition input_block ::
  "nat \<Rightarrow> 'a layer_args_scheme \<Rightarrow> engine \<Rightarrow> pyval \<times> node \<times> engine" where
  "input_block rank a s =
     (case inputs_hook a of
        Some h \<Rightarrow>
          (py_or (py_or (fst h) (input_shape a)) (dict_get (self_args a) ''input_shape''),
           snd h, s)
      | None \<Rightarrow>
          (let (v, s') = fresh_placeholder rank ''X'' s
           in (py_or (input_shape a) (dict_get (self_args a) ''input_shape''), v, s')))"

text \<open>
  The activation block of the three convolution classes: a string is looked up in the
  registry, anything else is taken as the function itself and must be callable.
\<close>

definition resolve_activation :: "env \<Rightarrow> pyval \<Rightarrow> error + string" where
  "resolve_activation r activation_name =
     (case activation_name of
        PStr n \<Rightarrow> get_activation_function r activation_name
      | PFun f \<Rightarrow> Inr f
      | _ \<Rightarrow> Inl (NotCallableError activation_name))"

text \<open>
  The parameter block of \<open>Conv1D\<close> and \<open>Conv2D\<close> (lines 122 to 142 and 246 to 266, the
  same text in both). The first test reads the resolved \<open>weights_init\<close>, the second
  one \<open>self.args.get('weights_init')\<close>; \<open>get_bias\<close> is given the constructor argument
  \<open>bias_init\<close> as it came.
\<close>

definition conv_params ::
  "pydict \<Rightarrow> node list option \<Rightarrow> pyval \<Rightarrow> pyval \<Rightarrow> pyval \<Rightarrow> pyval \<Rightarrow> pyval \<Rightarrow> pyval \<Rightarrow> pyval
     \<Rightarrow> engine \<Rightarrow> error + ((node \<times> node) \<times> engine)" where
  "conv_params args hook weights_init' weights_interval' weights_mean' weights_std'
       filter_shape' num_filters bias_init' s =
     (if hook_given hook then
        (let ps = hook_items hook in
         if length ps = 2 then Inr ((ps ! 0, ps ! 1), s)
         else Inl (InvalidParameterCountError 2 (length ps)))
      else
        and_then (py_lower weights_init') (\<lambda>wi.
        and_then
          (if wi = ''gaussian'' then
             Inr (fresh_shared ''W'' (Gaussian (Some weights_mean') (Some weights_std'))
                    filter_shape' s)
           else
             and_then (py_lower (dict_get args ''weights_init'')) (\<lambda>cw.
             if cw = ''uniform'' then
               Inr (fresh_shared ''W'' (Uniform (Some weights_interval')) filter_shape' s)
             else Inl (UnsupportedInitError (dict_get args ''weights_init''))))
          (\<lambda>(W, s1).
             let (b, s2) = fresh_shared ''b'' (Bias (Some bias_init')) (PTuple [num_filters]) s1
             in Inr ((W, b), s2))))"

text \<open>The computational graph of \<open>Conv1D\<close> up to \<open>conved\<close> (lines 150 to 169).\<close>

definition conv1d_graph ::
  "env \<Rightarrow> pyval \<Rightarrow> pyval \<Rightarrow> node \<Rightarrow> node \<Rightarrow> pyval \<Rightarrow> pyval \<Rightarrow> pyval \<Rightarrow> pyval
     \<Rightarrow> error + node" where
  "conv1d_graph r border_mode' convolution' x W stride' input_shape' filter_shape'
       filter_length =
     (if py_eq_str border_mode' ''valid'' \<or> py_eq_str border_mode' ''full'' then
        call_convolution r convolution' x W []
          [(''subsample'', PTuple [stride']), (''image_shape'', input_shape'),
           (''filter_shape'', filter_shape'), (''border_mode'', border_mode')]
      else if py_eq_str border_mode' ''same'' then
        and_then (call_convolution r convolution' x W []
          [(''subsample'', PTuple [stride']), (''image_shape'', input_shape'),
           (''filter_shape'', filter_shape'), (''border_mode'', PStr ''full'')]) (\<lambda>conved.
        and_then (py_shift filter_length) (\<lambda>shift.
        and_then (py_index input_shape' 2) (\<lambda>n.
        and_then (py_add n shift) (\<lambda>stop.
        Inr (Subtensor conved [Full, Full, FromTo shift stop])))))
      else Inl (InvalidBorderModeError border_mode'))"

definition Conv1D_init ::
  "env \<Rightarrow> conv1d_args \<Rightarrow> engine \<Rightarrow> error + (conv \<times> engine)" where
  "Conv1D_init r a s =
     (let args = self_args a;
          (input_shape', x, s1) = input_block 3 a s;
          activation_name = py_or (activation a) (dict_get args ''activation'')
      in
      and_then (resolve_activation r activation_name) (\<lambda>activation_func.
      let filter_shape' = py_or (filter_shape a) (dict_get args ''filter_shape'') in
      and_then (py_index filter_shape' 0) (\<lambda>num_filters.
      and_then (py_index filter_shape' 2) (\<lambda>filter_length.
      let stride' = py_or (stride a) (dict_get args ''stride'');
          border_mode' = py_or (border_mode a) (dict_get args ''border_mode'');
          convolution' = py_or (convolution a) (dict_get args ''convolution'');
          weights_init' = py_or (weights_init a) (dict_get args ''weights_init'');
          weights_interval' = py_or (weights_interval a) (dict_get args ''weights_interval'');
          weights_mean' = py_or (weights_mean a) (dict_get args ''weights_mean'');
          weights_std' = py_or (weights_std a) (dict_get args ''weights_std'')
      in
      and_then (conv_params args (params_hook a) weights_init' weights_interval'
                  weights_mean' weights_std' filter_shape' num_filters (bias_init a) s1)
        (\<lambda>((W, b), s2).
      and_then (conv1d_graph r border_mode' convolution' x W stride' input_shape'
                  filter_shape' filter_length) (\<lambda>conved.
      Inr (\<lparr>params = [W, b],
             input = x,
             output = Activation activation_func
                        (Add conved (Dimshuffle b [None, Some 0, None]))\<rparr>, s2)))))))"

text \<open>
  The computational graph of \<open>Conv2D\<close> up to \<open>conved\<close> (lines 274 to 293);
  \<open>filter_size\<close> is the slice \<open>filter_shape[2:3]\<close> taken at line 233.
\<close>

definition conv2d_graph ::
  "env \<Rightarrow> pyval \<Rightarrow> pyval \<Rightarrow> node \<Rightarrow> node \<Rightarrow> pyval \<Rightarrow> pyval \<Rightarrow> pyval \<Rightarrow> pyval
     \<Rightarrow> error + node" where
  "conv2d_graph r border_mode' convolution' x W strides' input_shape' filter_shape'
       filter_size =
     (if py_eq_str border_mode' ''valid'' \<or> py_eq_str border_mode' ''full'' then
        call_convolution r convolution' x W []
          [(''subsample'', strides'), (''image_shape'', input_shape'),
           (''filter_shape'', filter_shape'), (''border_mode'', border_mode')]
      else if py_eq_str border_mode' ''same'' then
        and_then (call_convolution r convolution' x W []
          [(''subsample'', strides'), (''image_shape'', input_shape'),
           (''filter_shape'', filter_shape'), (''border_mode'', PStr ''full'')]) (\<lambda>conved.
        and_then (py_index filter_size 0) (\<lambda>k0.
        and_then (py_shift k0) (\<lambda>shift_x.
        and_then (py_index filter_size 1) (\<lambda>k1.
        and_then (py_shift k1) (\<lambda>shift_y.
        and_then (py_index input_shape' 2) (\<lambda>n2.
        and_then (py_add n2 shift_x) (\<lambda>stop_x.
        and_then (py_index input_shape' 3) (\<lambda>n3.
        and_then (py_add n3 shift_y) (\<lambda>stop_y.
        Inr (Subtensor conved
               [Full, Full, FromTo shift_x stop_x, FromTo shift_y stop_y]))))))))))
      else Inl (InvalidBorderModeError border_mode'))"

definition Conv2D_init ::
  "env \<Rightarrow> conv2d_args \<Rightarrow> engine \<Rightarrow> error + (conv \<times> engine)" where
  "Conv2D_init r a s =
     (let args = self_args a;
          (input_shape', x, s1) = input_block 4 a s;
          activation_name = py_or (activation a) (dict_get args ''activation'')
      in
      and_then (resolve_activation r activation_name) (\<lambda>activation_func.
      let filter_shape' = py_or (filter_shape a) (dict_get args ''filter_shape'') in
      and_then (py_index filter_shape' 0) (\<lambda>num_filters.
      and_then (py_slice filter_shape' 2 3) (\<lambda>filter_size.
      let strides' = py_or (strides a) (dict_get args ''strides'');
          border_mode' = py_or (border_mode a) (dict_get args ''border_mode'');
          convolution' = py_or (convolution a) (dict_get args ''convolution'');
          weights_init' = py_or (weights_init a) (dict_get args ''weights_init'');
          weights_interval' = py_or (weights_interval a) (dict_get args ''weights_interval'');
          weights_mean' = py_or (weights_mean a) (dict_get args ''weights_mean'');
          weights_std' = py_or (weights_std a) (dict_get args ''weights_std'')
      in
      and_then (conv_params args (params_hook a) weights_init' weights_interval'
                  weights_mean' weights_std' filter_shape' num_filters (bias_init a) s1)
        (\<lambda>((W, b), s2).
      and_then (conv2d_graph r border_mode' convolution' x W strides' input_shape'
                  filter_shape' filter_size) (\<lambda>conved.
      Inr (\<lparr>params = [W, b],
             input = x,
             output = Activation activation_func
                        (Add conved (Dimshuffle b [None, Some 0, None, None]))\<rparr>, s2)))))))"

section \<open>The convolution and pooling layer\<close>

definition ConvPoolLayer_defaults :: pydict where
  "ConvPoolLayer_defaults = map_of
     [(''filter_shape'', PTuple [PInt 96, PInt 3, PInt 11, PInt 11]),
      (''convstride'', PInt 4),
      (''padsize'', PInt 0),
      (''group'', PInt 1),
      (''poolsize'', PInt 3),
      (''poolstride'', PInt 2),
      (''bias_init'', PInt 0),
      (''local_response_normalization'', PBool False),
      (''convolution'', PFun ''conv2d''),
      (''activation'', PStr ''rectifier'')]"

text \<open>
  \<open>numpy.asarray\<close> of a shape. A flat, non-empty tuple of ints that all fit 64 bits
  becomes a one-dimensional array of 64-bit ints, whose entries can be read and
  assigned; \<open>a[i] = a[i] / 2\<close> is floor division there (Python 2, no true division),
  and the half of a 64-bit int is one. The empty tuple becomes an array without
  entries and anything that is not a tuple an array without axes: every subscript of
  those raises IndexError. What numpy makes of any other tuple (nested, mixed, or with
  an int beyond 64 bits) is left to the environment.
\<close>

datatype ndarray = IntArray "int list" | Unindexable pyval | OtherArray pyval

definition int64 :: "int \<Rightarrow> bool" where
  "int64 i = (- (2 ^ 63) \<le> i \<and> i < 2 ^ 63)"

fun the_ints :: "pyval list \<Rightarrow> int list option" where
  "the_ints [] = Some []"
| "the_ints (PInt i # vs) = (case the_ints vs of None \<Rightarrow> None | Some is \<Rightarrow> Some (i # is))"
| "the_ints (v # vs) = None"

definition np_asarray :: "pyval \<Rightarrow> ndarray" where
  "np_asarray v =
     (case v of
        PTuple vs \<Rightarrow>
          (if vs = [] then Unindexable v
           else (case the_ints vs of
                   Some is \<Rightarrow> if list_all int64 is then IntArray is else OtherArray v
                 | None \<Rightarrow> OtherArray v))
      | _ \<Rightarrow> Unindexable v)"

fun np_get :: "env \<Rightarrow> ndarray \<Rightarrow> nat \<Rightarrow> error + pyval" where
  "np_get r (IntArray xs) i = (if i < length xs then Inr (PInt (xs ! i)) else Inl IndexError)"
| "np_get r (Unindexable v) i = Inl IndexError"
| "np_get r (OtherArray v) i = numpy_get r v i"

fun np_halve :: "env \<Rightarrow> ndarray \<Rightarrow> nat \<Rightarrow> error + ndarray" where
  "np_halve r (IntArray xs) i =
     (if i < length xs then Inr (IntArray (xs[i := xs ! i div 2])) else Inl IndexError)"
| "np_halve r (Unindexable v) i = Inl IndexError"
| "np_halve r (OtherArray v) i = map_sum id OtherArray (numpy_halve r v i)"

text \<open>An array handed to a helper as its \<open>shape\<close> argument.\<close>

fun np_shape :: "ndarray \<Rightarrow> pyval" where
  "np_shape (IntArray xs) = PTuple (map PInt xs)"
| "np_shape (Unindexable v) = v"
| "np_shape (OtherArray v) = v"

text \<open>
  The parameter attributes: \<open>self.W, self.b\<close> when \<open>group == 1\<close>, and
  \<open>self.W0, self.W1, self.b0, self.b1\<close> otherwise.
\<close>

datatype weights = Ungrouped node node | Grouped node node node node

record convpool_self = feedforward +
  self_input_shape :: ndarray
  activation_func :: string
  self_convolution :: pyval
  self_filter_shape :: ndarray
  self_convstride :: pyval
  self_padsize :: pyval
  self_poolsize :: pyval
  self_poolstride :: pyval
  channel :: pyval
  lrn :: pyval
  self_group :: pyval
  weights :: weights

record convpool = convpool_self +
  self_output :: node

text \<open>
  Lines 419 to 423: with \<open>group\<close> other than 1 the two shapes are halved in their first
  two entries, the filter shape first.
\<close>

definition halve_shapes :: "env \<Rightarrow> ndarray \<Rightarrow> ndarray \<Rightarrow> error + (ndarray \<times> ndarray)" where
  "halve_shapes r fs ishape =
     and_then (np_halve r fs 0) (\<lambda>fs1.
     and_then (np_halve r fs1 1) (\<lambda>fs2.
     and_then (np_halve r ishape 0) (\<lambda>is1.
     and_then (np_halve r is1 1) (\<lambda>is2.
     Inr (fs2, is2)))))"

text \<open>
  Lines 408 to 432. With \<open>group\<close> other than 1 the shapes are halved before the hook is
  looked at; the hook is unpacked as \<open>W0, W1, b0, b1\<close> and \<open>self.params\<close> is
  \<open>[W0, b0, W1, b1]\<close>.
\<close>

definition convpool_params ::
  "env \<Rightarrow> pyval \<Rightarrow> ndarray \<Rightarrow> ndarray \<Rightarrow> node list option \<Rightarrow> pyval \<Rightarrow> engine
     \<Rightarrow> error + (ndarray \<times> ndarray \<times> weights \<times> node list \<times> engine)" where
  "convpool_params r group' fs ishape hook bias_init' s =
     (if py_eq_int group' 1 then
        and_then
          (if hook_given hook then
             (let ps = hook_items hook in
              if length ps = 2 then Inr ((ps ! 0, ps ! 1), s)
              else Inl (InvalidParameterCountError 2 (length ps)))
           else
             (let (W, s1) = fresh_shared ''W'' (Gaussian (Some (PInt 0)) (Some (PFloat (1 / 100))))
                              (np_shape fs) s
              in and_then (np_get r fs 0) (\<lambda>n.
                 let (b, s2) = fresh_shared ''b'' (Bias (Some bias_init')) n s1
                 in Inr ((W, b), s2))))
          (\<lambda>((W, b), s'). Inr (fs, ishape, Ungrouped W b, [W, b], s'))
      else
        and_then (halve_shapes r fs ishape) (\<lambda>(fs2, is2).
        and_then
          (if hook_given hook then
             (let ps = hook_items hook in
              if length ps = 4 then Inr ((ps ! 0, ps ! 1, ps ! 2, ps ! 3), s)
              else Inl (InvalidParameterCountError 4 (length ps)))
           else
             (let (W0, s1) = fresh_shared ''W0'' (Gaussian None None) (np_shape fs2) s;
                  (W1, s2) = fresh_shared ''W1'' (Gaussian None None) (np_shape fs2) s1
              in and_then (np_get r fs2 0) (\<lambda>n.
                 let (b0, s3) = fresh_shared ''b0'' (Bias (Some bias_init')) n s2;
                     (b1, s4) = fresh_shared ''b1'' (Bias (Some bias_init')) n s3
                 in Inr ((W0, W1, b0, b1), s4))))
          (\<lambda>((W0, W1, b0, b1), s').
             Inr (fs2, is2, Grouped W0 W1 b0 b1, [W0, b0, W1, b1], s'))))"

text \<open>
  The method \<open>build_computation_graph\<close> (lines 445 to 483), reading the attributes set
  so far. An attribute the other branch would have set does not exist. The image and
  the kernels are handed to the convolution by keyword, as \<open>img\<close> and \<open>kerns\<close>.
\<close>

definition build_computation_graph :: "env \<Rightarrow> 'a convpool_self_scheme \<Rightarrow> error + node" where
  "build_computation_graph r l =
     (let kw = [(''subsample'', PTuple [self_convstride l, self_convstride l]),
                (''border_mode'', PTuple [self_padsize l, self_padsize l])]
      in
      and_then
        (if py_eq_int (self_group l) 1 then
           (case weights l of
              Ungrouped W b \<Rightarrow>
                and_then (call_convolution r (self_convolution l) (input l) W
                            [''img'', ''kerns''] kw) (\<lambda>conv_out.
                Inr (Add conv_out (Dimshuffle b [None, Some 0, None, None])))
            | Grouped W0 W1 b0 b1 \<Rightarrow> Inl AttributeError)
         else
           (case weights l of
              Grouped W0 W1 b0 b1 \<Rightarrow>
                and_then (py_half (channel l)) (\<lambda>half0.
                and_then (call_convolution r (self_convolution l)
                            (Subtensor (input l) [Full, UpTo half0, Full, Full]) W0
                            [''img'', ''kerns''] kw)
                  (\<lambda>conv_out0.
                and_then (py_half (channel l)) (\<lambda>half1.
                and_then (call_convolution r (self_convolution l)
                            (Subtensor (input l) [Full, From half1, Full, Full]) W1
                            [''img'', ''kerns''] kw)
                  (\<lambda>conv_out1.
                Inr (Concatenate
                       [Add conv_out0 (Dimshuffle b0 [None, Some 0, None, None]),
                        Add conv_out1 (Dimshuffle b1 [None, Some 0, None, None])] 1)))))
            | Ungrouped W b \<Rightarrow> Inl AttributeError))
        (\<lambda>conv_out.
           let out = Activation (activation_func l) conv_out in
           Inr (if \<not> py_eq_int (self_poolsize l) 1 then
                  (if has_cudnn r then
                     DnnPool out (PTuple [self_poolsize l, self_poolsize l])
                       (PTuple [self_poolstride l, self_poolstride l])
                   else
                     MaxPool2d out (PTuple [self_poolsize l, self_poolsize l])
                       (PTuple [self_poolstride l, self_poolstride l]))
                else out)))"

text \<open>\<open>self.group\<close>: \<open>group or self.args.get('group')\<close> (line 396).\<close>

definition resolved_group :: "convpool_args \<Rightarrow> pyval" where
  "resolved_group a = py_or (group a) (dict_get (self_args a) ''group'')"

definition ConvPoolLayer_init ::
  "env \<Rightarrow> convpool_args \<Rightarrow> engine \<Rightarrow> error + (convpool \<times> engine)" where
  "ConvPoolLayer_init r a s =
     (let args = self_args a;
          (input_shape', x, s1) = input_block 4 a s;
          activation_name = py_or (activation a) (dict_get args ''activation'')
      in
      and_then (resolve_activation r activation_name) (\<lambda>activation_func'.
      let convolution' = py_or (convolution a) (dict_get args ''convolution'');
          filter_shape' = py_or (filter_shape a) (dict_get args ''filter_shape'');
          convstride' = py_or (convstride a) (dict_get args ''convstride'');
          padsize' = py_or (padsize a) (dict_get args ''padsize'');
          poolsize' = py_or (poolsize a) (dict_get args ''poolsize'');
          poolstride' = py_or (poolstride a) (dict_get args ''poolstride'')
      in
      and_then (py_index input_shape' 1) (\<lambda>channel'.
      let lrn' = py_or (local_response_normalization a)
                   (dict_get args ''local_response_normalization'');
          group' = resolved_group a
      in
      if \<not> (py_eq_int group' 1 \<or> py_eq_int group' 2) then Inl (InvalidGroupError group')
      else
      and_then (convpool_params r group' (np_asarray filter_shape') (np_asarray input_shape')
                  (params_hook a) (bias_init a) s1)
        (\<lambda>(fs, ishape, w, ps, s2).
      let me = \<lparr>params = ps,
                input = x,
                self_input_shape = ishape,
                activation_func = activation_func',
                self_convolution = convolution',
                self_filter_shape = fs,
                self_convstride = convstride',
                self_padsize = padsize',
                self_poolsize = poolsize',
                self_poolstride = poolstride',
                channel = channel',
                lrn = lrn',
                self_group = group',
                weights = w\<rparr>
      in
      and_then (build_computation_graph r me) (\<lambda>out.
      Inr (convpool_self.extend me
             (convpool.fields (if truthy lrn' then CrossChannelNorm out else out)), s2))))))"

section \<open>The layer contract\<close>

text \<open>
  A layer object is an instance of one of the four classes; the accessors of the
  contract dispatch on the class.
\<close>

datatype layer =
    DenoisingAutoencoder dae
  | Conv1D conv
  | Conv2D conv
  | ConvPoolLayer convpool

fun get_inputs :: "layer \<Rightarrow> node list" where
  "get_inputs (DenoisingAutoencoder l) = inputs l"
| "get_inputs (Conv1D l) = [input l]"
| "get_inputs (Conv2D l) = [input l]"
| "get_inputs (ConvPoolLayer l) = [input l]"

fun get_outputs :: "layer \<Rightarrow> node" where
  "get_outputs (DenoisingAutoencoder l) = recon_predict l"
| "get_outputs (Conv1D l) = output l"
| "get_outputs (Conv2D l) = output l"
| "get_outputs (ConvPoolLayer l) = self_output l"

fun get_params :: "layer \<Rightarrow> node list" where
  "get_params (DenoisingAutoencoder l) = params l"
| "get_params (Conv1D l) = params l"
| "get_params (Conv2D l) = params l"
| "get_params (ConvPoolLayer l) = params l"

definition get_hiddens :: "dae \<Rightarrow> node" where
  "get_hiddens l = hiddens l"

definition get_train_cost :: "dae \<Rightarrow> node" where
  "get_train_cost l = train_cost l"

text \<open>A constructor call: the class and its keyword arguments.\<close>

datatype call =
    NewDenoisingAutoencoder dae_args
  | NewConv1D conv1d_args
  | NewConv2D conv2d_args
  | NewConvPoolLayer convpool_args

fun lift_layer :: "('a \<Rightarrow> layer) \<Rightarrow> error + ('a \<times> engine) \<Rightarrow> error + (layer \<times> engine)" where
  "lift_layer C (Inl e) = Inl e"
| "lift_layer C (Inr (l, s)) = Inr (C l, s)"

fun construct :: "env \<Rightarrow> call \<Rightarrow> engine \<Rightarrow> error + (layer \<times> engine)" where
  "construct r (NewDenoisingAutoencoder a) s =
     lift_layer DenoisingAutoencoder (DenoisingAutoencoder_init r a s)"
| "construct r (NewConv1D a) s = lift_layer Conv1D (Conv1D_init r a s)"
| "construct r (NewConv2D a) s = lift_layer Conv2D (Conv2D_init r a s)"
| "construct r (NewConvPoolLayer a) s = lift_layer ConvPoolLayer (ConvPoolLayer_init r a s)"

fun call_inputs_hook :: "call \<Rightarrow> (pyval \<times> node) option" where
  "call_inputs_hook (NewDenoisingAutoencoder a) = inputs_hook a"
| "call_inputs_hook (NewConv1D a) = inputs_hook a"
| "call_inputs_hook (NewConv2D a) = inputs_hook a"
| "call_inputs_hook (NewConvPoolLayer a) = inputs_hook a"

fun call_params_hook :: "call \<Rightarrow> node list option" where
  "call_params_hook (NewDenoisingAutoencoder a) = params_hook a"
| "call_params_hook (NewConv1D a) = params_hook a"
| "call_params_hook (NewConv2D a) = params_hook a"
| "call_params_hook (NewConvPoolLayer a) = params_hook a"

fun with_params_hook :: "node list option \<Rightarrow> call \<Rightarrow> call" where
  "with_params_hook h (NewDenoisingAutoencoder a) = NewDenoisingAutoencoder (a\<lparr>params_hook := h\<rparr>)"
| "with_params_hook h (NewConv1D a) = NewConv1D (a\<lparr>params_hook := h\<rparr>)"
| "with_params_hook h (NewConv2D a) = NewConv2D (a\<lparr>params_hook := h\<rparr>)"
| "with_params_hook h (NewConvPoolLayer a) = NewConvPoolLayer (a\<lparr>params_hook := h\<rparr>)"

text \<open>
  The number of parameters each class asks of a \<open>params_hook\<close>: 3 for the autoencoder,
  2 for \<open>Conv1D\<close> and \<open>Conv2D\<close>, and for \<open>ConvPoolLayer\<close> 2 when the resolved
  \<open>group\<close> equals 1 and 4 otherwise.
\<close>

fun required_count :: "call \<Rightarrow> nat" where
  "required_count (NewDenoisingAutoencoder a) = 3"
| "required_count (NewConv1D a) = 2"
| "required_count (NewConv2D a) = 2"
| "required_count (NewConvPoolLayer a) =
     (if py_eq_int (resolved_group a) 1 then 2 else 4)"

text \<open>
  Whether a call gets as far as its parameter block, where the hook is looked at: every
  statement of the constructor before that block returns. These are the lookup of the
  activation (and, in the autoencoder, of the other activation and of the cost), the
  subscripts of the filter shape in \<open>Conv1D\<close> and \<open>Conv2D\<close>, and in
  \<open>ConvPoolLayer\<close> the subscript of the input shape, the assertion on \<open>group\<close> and,
  with \<open>group\<close> other than 1, the halving of the shapes.
\<close>

fun reaches_params :: "env \<Rightarrow> call \<Rightarrow> engine \<Rightarrow> bool" where
  "reaches_params r (NewDenoisingAutoencoder a) s =
     (\<not> isl (get_activation_function r
               (py_or (hidden_activation a) (dict_get (self_args a) ''hidden_activation''))) \<and>
      \<not> isl (get_activation_function r
               (py_or (visible_activation a) (dict_get (self_args a) ''visible_activation''))) \<and>
      \<not> isl (get_cost_function r
               (py_or (cost_function a) (dict_get (self_args a) ''cost_function''))))"
| "reaches_params r (NewConv1D a) s =
     (\<not> isl (resolve_activation r (py_or (activation a) (dict_get (self_args a) ''activation''))) \<and>
      \<not> isl (py_index (py_or (filter_shape a) (dict_get (self_args a) ''filter_shape'')) 0) \<and>
      \<not> isl (py_index (py_or (filter_shape a) (dict_get (self_args a) ''filter_shape'')) 2))"
| "reaches_params r (NewConv2D a) s =
     (\<not> isl (resolve_activation r (py_or (activation a) (dict_get (self_args a) ''activation''))) \<and>
      \<not> isl (py_index (py_or (filter_shape a) (dict_get (self_args a) ''filter_shape'')) 0) \<and>
      \<not> isl (py_slice (py_or (filter_shape a) (dict_get (self_args a) ''filter_shape'')) 2 3))"
| "reaches_params r (NewConvPoolLayer a) s =
     (\<not> isl (resolve_activation r (py_or (activation a) (dict_get (self_args a) ''activation''))) \<and>
      \<not> isl (py_index (fst (input_block 4 a s)) 1) \<and>
      (py_eq_int (resolved_group a) 1 \<or> py_eq_int (resolved_group a) 2) \<and>
      (if py_eq_int (resolved_group a) 1 then True
       else \<not> isl (halve_shapes r
                      (np_asarray (py_or (filter_shape a) (dict_get (self_args a) ''filter_shape'')))
                      (np_asarray (fst (input_block 4 a s))))))"

section \<open>Reading the graph\<close>

text \<open>
  The encoder and the decoder in the specification's words (section 4.3):
  \<open>hidden_activation(input \<cdot> W + hidden_bias)\<close> and
  \<open>visible_activation(hidden \<cdot> W\<^sup>T + visible_bias)\<close>, to be compared with the graph
  the constructor builds.
\<close>

definition encode :: "string \<Rightarrow> node \<Rightarrow> node \<Rightarrow> node \<Rightarrow> node" where
  "encode hidden_act v W hidden_bias = Activation hidden_act (Add (Dot v W) hidden_bias)"

definition decode :: "string \<Rightarrow> node \<Rightarrow> node \<Rightarrow> node \<Rightarrow> node" where
  "decode visible_act h W visible_bias =
     Activation visible_act (Add (Dot h (Transpose W)) visible_bias)"

text \<open>
  The convolution stage of a \<open>ConvPoolLayer\<close> output: the node under the activation,
  with the pooling and the normalization (which wrap the activation) taken off.
\<close>

fun conv_stage :: "node \<Rightarrow> node" where
  "conv_stage (CrossChannelNorm v) = conv_stage v"
| "conv_stage (DnnPool v ws st) = conv_stage v"
| "conv_stage (MaxPool2d v ds st) = conv_stage v"
| "conv_stage (Activation f v) = v"
| "conv_stage v = v"

text \<open>
  The number of channels (the extent of axis 1) of a node in batch, channel, row, column
  layout, where the graph fixes it: a convolution has one output channel per filter,
  that is the first entry of the shape its weight tensor was allocated with (section
  4.4: "weight tensor shaped (num\_filters, num\_input\_channels, kernel\_extent ...)");
  adding the broadcast bias, the activation, the pooling and the normalization keep
  the channels; concatenation along axis 1 adds them up.
\<close>

fun channels :: "node \<Rightarrow> int option" where
  "channels (Convolve f img (Shared n x i (PTuple (PInt k # sh))) kw) = Some k"
| "channels (Add v (Dimshuffle b pat)) = channels v"
| "channels (Activation f v) = channels v"
| "channels (DnnPool v ws st) = channels v"
| "channels (MaxPool2d v ds st) = channels v"
| "channels (CrossChannelNorm v) = channels v"
| "channels (Concatenate [u, v] axis) =
     (if axis = 1 then
        (case channels u of
           None \<Rightarrow> None
         | Some m \<Rightarrow> (case channels v of None \<Rightarrow> None | Some n \<Rightarrow> Some (m + n)))
      else None)"
| "channels v = None"

text \<open>
  The extent of the Python slice \<open>[lo:hi]\<close> of an axis of extent \<open>len\<close>, for bounds
  that are not negative.
\<close>

definition slice_extent :: "int \<Rightarrow> int \<Rightarrow> int \<Rightarrow> int" where
  "slice_extent len lo hi = max 0 (min hi len - min lo len)"

section \<open>A concrete environment\<close>

text \<open>
  The engine's three convolution functions the layers are used with, as far as a call
  of theirs can be refused when the graph is built: \<open>conv1d_mc0(input, filters,
  image_shape=None, filter_shape=None, border_mode='valid', subsample=(1,))\<close> on tensors
  of three axes, \<open>T.nnet.conv2d(input, filters, image_shape=None, filter_shape=None,
  border_mode='valid', subsample=(1, 1), **kargs)\<close> on tensors of four axes, and
  \<open>dnn.dnn_conv(img, kerns, border_mode='valid', subsample=(1, 1), conv_mode='conv',
  direction_hint=None, workmem=None)\<close> on tensors of four axes, which also takes a pair
  of paddings as its border mode.

  The number of axes of a tensor, where the graph fixes it.
\<close>

fun ndim :: "node \<Rightarrow> nat option" where
  "ndim (Placeholder n rank x) = Some rank"
| "ndim (Shared n x i (PTuple vs)) = Some (length vs)"
| "ndim (Shared n x i (PInt k)) = Some 1"
| "ndim (Add u v) =
     (case ndim u of
        None \<Rightarrow> None
      | Some m \<Rightarrow> (case ndim v of None \<Rightarrow> None | Some n \<Rightarrow> Some (max m n)))"
| "ndim (Dimshuffle v pat) = Some (length pat)"
| "ndim (Activation f v) = ndim v"
| "ndim (SaltAndPepper v c) = ndim v"
| "ndim (Convolve f img kerns kw) = ndim img"
| "ndim (Subtensor v sl) = ndim v"
| "ndim (Concatenate (v # vs) axis) = ndim v"
| "ndim (DnnPool v ws st) = ndim v"
| "ndim (MaxPool2d v ds st) = ndim v"
| "ndim (CrossChannelNorm v) = ndim v"
| "ndim (Transpose v) = ndim v"
| "ndim v = None"

text \<open>
  A stride: a tuple of \<open>n\<close> positive ints. A border mode: \<open>'valid'\<close>, \<open>'full'\<close> or,
  where paddings are taken, a pair of ints that are not negative or one such int. A
  shape hint: \<open>None\<close> or a tuple of \<open>n\<close> entries, each an int or \<open>None\<close>.
\<close>

fun subsample_error :: "nat \<Rightarrow> pyval option \<Rightarrow> error option" where
  "subsample_error n None = None"
| "subsample_error n (Some (PTuple vs)) =
     (case the_ints vs of
        None \<Rightarrow> Some TypeError
      | Some is \<Rightarrow> if length is = n \<and> list_all (\<lambda>i. 0 < i) is then None else Some EngineError)"
| "subsample_error n (Some v) = Some TypeError"

fun border_error :: "bool \<Rightarrow> pyval option \<Rightarrow> error option" where
  "border_error pads None = None"
| "border_error pads (Some (PStr m)) =
     (if m = ''valid'' \<or> m = ''full'' then None else Some EngineError)"
| "border_error pads (Some (PTuple vs)) =
     (case the_ints vs of
        Some [p, q] \<Rightarrow> if pads \<and> 0 \<le> p \<and> 0 \<le> q then None else Some EngineError
      | _ \<Rightarrow> Some EngineError)"
| "border_error pads (Some (PInt p)) = (if pads \<and> 0 \<le> p then None else Some EngineError)"
| "border_error pads (Some v) = Some EngineError"

fun is_extent :: "pyval \<Rightarrow> bool" where
  "is_extent (PInt i) = True"
| "is_extent PNone = True"
| "is_extent v = False"

fun hint_error :: "nat \<Rightarrow> pyval option \<Rightarrow> error option" where
  "hint_error n None = None"
| "hint_error n (Some PNone) = None"
| "hint_error n (Some (PTuple vs)) =
     (if length vs = n \<and> list_all is_extent vs then None else Some EngineError)"
| "hint_error n (Some v) = Some EngineError"

text \<open>
  What a convolution refuses: a shape hint, a border mode or a stride it cannot read,
  and a tensor that has not the number of axes it works on (with the error \<open>e\<close>).
\<close>

definition conv_refuses ::
  "error \<Rightarrow> nat \<Rightarrow> bool \<Rightarrow> node \<Rightarrow> node \<Rightarrow> (string \<times> pyval) list \<Rightarrow> error option" where
  "conv_refuses e rank pads img kerns kw =
     (case hint_error rank (map_of kw ''image_shape'') of
        Some e' \<Rightarrow> Some e'
      | None \<Rightarrow>
     (case hint_error rank (map_of kw ''filter_shape'') of
        Some e' \<Rightarrow> Some e'
      | None \<Rightarrow>
     (case border_error pads (map_of kw ''border_mode'') of
        Some e' \<Rightarrow> Some e'
      | None \<Rightarrow>
     (case subsample_error (rank - 2) (map_of kw ''subsample'') of
        Some e' \<Rightarrow> Some e'
      | None \<Rightarrow>
     (if ndim img = Some rank \<and> ndim kerns = Some rank then None else Some e)))))"

text \<open>Any other name is a function of one parameter, which no convolution call binds.\<close>

definition std_callables :: "string \<Rightarrow> pyfunction" where
  "std_callables f =
     (if f = ''conv1d_mc0'' then
        \<lparr>parameters = [''input'', ''filters'', ''image_shape'', ''filter_shape'',
                       ''border_mode'', ''subsample''],
         required = 2, var_keywords = False,
         refuses = conv_refuses EngineError 3 False\<rparr>
      else if f = ''conv2d'' then
        \<lparr>parameters = [''input'', ''filters'', ''image_shape'', ''filter_shape'',
                       ''border_mode'', ''subsample''],
         required = 2, var_keywords = True,
         refuses = conv_refuses TypeError 4 False\<rparr>
      else if f = ''dnn_conv'' then
        \<lparr>parameters = [''img'', ''kerns'', ''border_mode'', ''subsample'', ''conv_mode'',
                       ''direction_hint'', ''workmem''],
         required = 2, var_keywords = False,
         refuses = conv_refuses TypeError 4 True\<rparr>
      else
        \<lparr>parameters = [''x''], required = 1, var_keywords = False,
         refuses = (\<lambda>img kerns kw. None)\<rparr>)"

text \<open>
  A registry with the names the defaults use, no cuDNN pooling, and the three
  convolutions. The calls below use shapes of small ints only, so that numpy is never
  asked for a subscript left to the environment; the two functions are set to raise.
\<close>

definition std_env :: env where
  "std_env = \<lparr>activation_names = [''tanh'', ''sigmoid'', ''rectifier''],
              cost_names = [''binary_crossentropy''],
              has_cudnn = False,
              callables = std_callables,
              numpy_get = (\<lambda>v i. Inl NumpyError),
              numpy_halve = (\<lambda>v i. Inl NumpyError)\<rparr>"

section \<open>Concrete calls\<close>

text \<open>
  The four constructor calls with every keyword argument left out and the class's own
  defaults.
\<close>

definition dae_kwargs :: dae_args where
  "dae_kwargs = \<lparr>config = Map.empty, defaults = DenoisingAutoencoder_defaults,
                 inputs_hook = None, params_hook = None, hiddens_hook = None,
                 input_size = PNone, hidden_size = PNone, corruption_level = PNone,
                 hidden_activation = PNone, visible_activation = PNone,
                 cost_function = PNone\<rparr>"

definition conv1d_kwargs :: conv1d_args where
  "conv1d_kwargs = \<lparr>config = Map.empty, defaults = Conv1D_defaults,
                    inputs_hook = None, params_hook = None,
                    input_shape = PNone, filter_shape = PNone, bias_init = PNone,
                    activation = PNone, convolution = PNone,
                    weights_init = PNone, weights_interval = PNone, weights_mean = PNone,
                    weights_std = PNone, border_mode = PNone, stride = PNone\<rparr>"

definition conv2d_kwargs :: conv2d_args where
  "conv2d_kwargs = \<lparr>config = Map.empty, defaults = Conv2D_defaults,
                    inputs_hook = None, params_hook = None,
                    input_shape = PNone, filter_shape = PNone, bias_init = PNone,
                    activation = PNone, convolution = PNone,
                    weights_init = PNone, weights_interval = PNone, weights_mean = PNone,
                    weights_std = PNone, border_mode = PNone, strides = PNone\<rparr>"

definition convpool_kwargs :: convpool_args where
  "convpool_kwargs = \<lparr>config = Map.empty, defaults = ConvPoolLayer_defaults,
                      inputs_hook = None, params_hook = None,
                      input_shape = PNone, filter_shape = PNone, bias_init = PNone,
                      activation = PNone, convolution = PNone,
                      convstride = PNone, padsize = PNone, group = PNone, poolsize = PNone,
                      poolstride = PNone, local_response_normalization = PNone\<rparr>"

text \<open>
  Calls that say what the defaults leave open: \<open>Conv1D(None, input_shape=(1, 1, 5),
  filter_shape=(2, 1, 3), stride=1)\<close>, \<open>Conv2D(None, input_shape=(1, 1, 5, 5),
  filter_shape=(2, 1, 3, 3), strides=(1, 1))\<close> and \<open>ConvPoolLayer(None,
  input_shape=(8, 4, 32, 32), filter_shape=(6, 4, 3, 3), convolution=dnn.dnn_conv)\<close>,
  with a convolution that takes its tensors as \<open>img\<close> and \<open>kerns\<close>.
\<close>

definition conv1d_call :: conv1d_args where
  "conv1d_call = conv1d_kwargs\<lparr>input_shape := PTuple [PInt 1, PInt 1, PInt 5],
                                filter_shape := PTuple [PInt 2, PInt 1, PInt 3],
                                stride := PInt 1\<rparr>"

definition conv2d_call :: conv2d_args where
  "conv2d_call = conv2d_kwargs\<lparr>input_shape := PTuple [PInt 1, PInt 1, PInt 5, PInt 5],
                                filter_shape := PTuple [PInt 2, PInt 1, PInt 3, PInt 3],
                                strides := PTuple [PInt 1, PInt 1]\<rparr>"

definition convpool_call :: convpool_args where
  "convpool_call = convpool_kwargs\<lparr>input_shape := PTuple [PInt 8, PInt 4, PInt 32, PInt 32],
                                    filter_shape := PTuple [PInt 6, PInt 4, PInt 3, PInt 3],
                                    convolution := PFun ''dnn_conv''\<rparr>"

text \<open>
  Tensors of some other layer, to be handed over in a \<open>params_hook\<close>: the kernel and
  the bias of a one-dimensional convolution (\<open>kernel1\<close>, \<open>bias1\<close>), of a two-dimensional
  one (\<open>kernel2\<close>, \<open>bias2\<close>), the two kernels and the two biases of a grouped one
  (\<open>gw0\<close>, \<open>gw1\<close>, \<open>gb0\<close>, \<open>gb1\<close>); and a tensor \<open>h0\<close> computed by some other
  layer.
\<close>

definition kernel1 :: node where
  "kernel1 = Shared 0 ''W'' (Uniform None) (PTuple [PInt 2, PInt 1, PInt 3])"


definition kernel2 :: node where
  "kernel2 = Shared 0 ''W'' (Uniform None) (PTuple [PInt 2, PInt 1, PInt 3, PInt 3])"

definition bias2 :: node where
  "bias2 = Shared 1 ''b'' (Bias None) (PTuple [PInt 2])"

definition gw0 :: node where
  "gw0 = Shared 0 ''W0'' (Gaussian None None) (PTuple [PInt 3, PInt 2, PInt 3, PInt 3])"

definition gw1 :: node where
  "gw1 = Shared 1 ''W1'' (Gaussian None None) (PTuple [PInt 3, PInt 2, PInt 3, PInt 3])"

definition gb0 :: node where
  "gb0 = Shared 2 ''b0'' (Bias None) (PInt 3)"

definition gb1 :: node where
  "gb1 = Shared 3 ''b1'' (Bias None) (PInt 3)"

definition h0 :: node where
  "h0 = Activation ''tanh'' (Placeholder 0 2 ''H'')"

section \<open>Auxiliary facts\<close>

lemma and_then_Inr_iff: "and_then m f = Inr y \<longleftrightarrow> (\<exists>x. m = Inr x \<and> f x = Inr y)"
  by (cases m) (simp_all add: and_then_def)

lemma and_then_Inl [simp]: "and_then (Inl e) f = Inl e"
  by (simp add: and_then_def)

lemma and_then_Inr [simp]: "and_then (Inr x) f = f x"
  by (simp add: and_then_def)

lemma lift_layer_Inr_iff:
  "lift_layer C m = Inr (B, s') \<longleftrightarrow> (\<exists>l. m = Inr (l, s') \<and> B = C l)"
  by (cases "(C, m)" rule: lift_layer.cases) auto

text \<open>Unfolding a construction on concrete arguments.\<close>

lemmas eval_defs =
  std_env_def self_args_def merge_args_def dict_get_def py_or_def Let_def
  get_activation_function_def get_cost_function_def resolve_activation_def
  fresh_placeholder_def fresh_shared_def hook_given_def hook_items_def input_block_def
  call_convolution_def binds_def std_callables_def conv_refuses_def

lemmas dae_eval =
  DenoisingAutoencoder_init_def dae_kwargs_def DenoisingAutoencoder_defaults_def
  dae_params_def eval_defs

lemmas conv1d_eval =
  Conv1D_init_def conv1d_call_def conv1d_kwargs_def Conv1D_defaults_def conv_params_def
  conv1d_graph_def py_eq_str_def lower_char_def eval_defs

lemmas conv2d_eval =
  Conv2D_init_def conv2d_call_def conv2d_kwargs_def Conv2D_defaults_def conv_params_def
  conv2d_graph_def py_eq_str_def lower_char_def eval_defs

lemmas convpool_eval =
  ConvPoolLayer_init_def convpool_call_def convpool_kwargs_def ConvPoolLayer_defaults_def
  convpool_params_def halve_shapes_def build_computation_graph_def resolved_group_def
  np_asarray_def int64_def convpool_self.defs convpool.defs eval_defs

lemmas grouped_call_eval =
  resolved_group_def convpool_call_def convpool_kwargs_def ConvPoolLayer_defaults_def
  eval_defs

text \<open>Allocating parameters allocates no placeholder.\<close>

lemma dae_params_placeholders:
  "dae_params h a b s = Inr (x, s') \<Longrightarrow> placeholders s' = placeholders s"
  by (auto simp: dae_params_def Let_def fresh_shared_def placeholders_def split: if_splits)

lemma conv_params_placeholders:
  "conv_params args h wi wv wm ws fs nf bi s = Inr (x, s') \<Longrightarrow>
   placeholders s' = placeholders s"
  by (auto simp: conv_params_def Let_def fresh_shared_def placeholders_def and_then_Inr_iff
      split: if_splits)

lemma convpool_params_placeholders:
  "convpool_params r g fs ishape h bi s = Inr (fs', is', w, ps, s') \<Longrightarrow>
   placeholders s' = placeholders s"
  by (auto simp: convpool_params_def Let_def fresh_shared_def placeholders_def and_then_Inr_iff
      case_prod_beta split: if_splits)

lemma input_block_hook:
  "inputs_hook a = Some (sh, t) \<Longrightarrow>
   input_block rank a s =
     (py_or (py_or sh (input_shape a)) (dict_get (self_args a) ''input_shape''), t, s)"
  by (simp add: input_block_def)

lemma dae_hooked_input:
  assumes "DenoisingAutoencoder_init r a s = Inr (l, s')" and "inputs_hook a = Some (sh, t)"
  shows "inputs l = [t] \<and> placeholders s' = placeholders s"
  using assms unfolding DenoisingAutoencoder_init_def
  by (auto simp: Let_def and_then_Inr_iff case_prod_beta dest: dae_params_placeholders)

lemma conv1d_hooked_input:
  assumes "Conv1D_init r a s = Inr (l, s')" and "inputs_hook a = Some (sh, t)"
  shows "input l = t \<and> placeholders s' = placeholders s"
  using assms unfolding Conv1D_init_def
  by (auto simp: Let_def and_then_Inr_iff case_prod_beta input_block_hook
      dest: conv_params_placeholders)

lemma conv2d_hooked_input:
  assumes "Conv2D_init r a s = Inr (l, s')" and "inputs_hook a = Some (sh, t)"
  shows "input l = t \<and> placeholders s' = placeholders s"
  using assms unfolding Conv2D_init_def
  by (auto simp: Let_def and_then_Inr_iff case_prod_beta input_block_hook
      dest: conv_params_placeholders)

lemma convpool_hooked_input:
  assumes "ConvPoolLayer_init r a s = Inr (l, s')" and "inputs_hook a = Some (sh, t)"
  shows "input l = t \<and> placeholders s' = placeholders s"
  using assms unfolding ConvPoolLayer_init_def
  by (auto simp: Let_def and_then_Inr_iff case_prod_beta input_block_hook
      convpool_self.defs convpool.defs split: if_splits dest: convpool_params_placeholders)

lemma isl_lift_layer [simp]: "isl (lift_layer C m) = isl m"
  by (cases "(C, m)" rule: lift_layer.cases) auto

lemma lift_layer_Inl_iff [simp]: "lift_layer C m = Inl e \<longleftrightarrow> m = Inl e"
  by (cases "(C, m)" rule: lift_layer.cases) auto

lemma lift_layer_Inr_ex: "lift_layer C m = Inr ok \<Longrightarrow> \<exists>ok'. m = Inr ok'"
  by (cases "(C, m)" rule: lift_layer.cases) auto

text \<open>The parameter hook is read by the parameter block only.\<close>

lemma self_args_params_hook [simp]: "self_args (a\<lparr>params_hook := h\<rparr>) = self_args a"
  by (simp add: self_args_def)

lemma input_block_params_hook [simp]:
  "input_block k (a\<lparr>params_hook := h\<rparr>) s = input_block k a s"
  by (simp add: input_block_def split: option.splits)

lemma resolved_group_params_hook [simp]:
  "resolved_group (a\<lparr>params_hook := h\<rparr>) = resolved_group a"
  by (simp add: resolved_group_def)

lemma hook_given_Some: "ps \<noteq> [] \<Longrightarrow> hook_given (Some ps)"
  by (simp add: hook_given_def)

lemma hook_items_Some [simp]: "hook_items (Some ps) = ps"
  by (simp add: hook_items_def)


text \<open>Arrays of ints.\<close>

lemma the_ints_map_PInt [simp]: "the_ints (map PInt xs) = Some xs"
  by (induction xs) simp_all

lemma np_asarray_int64:
  "xs \<noteq> [] \<Longrightarrow> list_all int64 xs \<Longrightarrow> np_asarray (PTuple (map PInt xs)) = IntArray xs"
  by (simp add: np_asarray_def)

lemma halve_shapes_IntArray:
  "halve_shapes r (IntArray xs) (IntArray ys) =
     (if 2 \<le> length xs \<and> 2 \<le> length ys
      then Inr (IntArray (xs[0 := xs ! 0 div 2, Suc 0 := xs ! 1 div 2]),
                IntArray (ys[0 := ys ! 0 div 2, Suc 0 := ys ! 1 div 2]))
      else Inl IndexError)"
  by (cases xs; cases "tl xs"; cases ys; cases "tl ys") (auto simp: halve_shapes_def)

lemma np_get_halved:
  "2 \<le> length xs \<Longrightarrow> np_get r (IntArray (xs[0 := u, Suc 0 := v])) 0 = Inr (PInt u)"
  by (cases xs) auto

lemma map_PInt_halved:
  "2 \<le> length xs \<Longrightarrow>
   map PInt (xs[0 := u, Suc 0 := v]) = PInt u # PInt v # map PInt (drop 2 xs)"
  by (cases xs; cases "tl xs") auto

text \<open>A convolution that returns is the call of a function on the two tensors.\<close>

lemma call_convolution_Inr:
  "call_convolution r cv img kerns names kw = Inr c \<Longrightarrow>
   \<exists>f. cv = PFun f \<and> c = Convolve f img kerns kw"
  by (cases cv) (auto simp: call_convolution_def split: if_splits option.splits)

section \<open>Chaining layers through the inputs hook\<close>

text \<open>
  Claim C1. Whatever the class of the upstream layer \<open>A\<close> and of the layer \<open>B\<close> under
  construction: when \<open>B\<close> is constructed with \<open>inputs_hook = (shape, A.get_outputs())\<close>
  and the construction returns, \<open>B.get_inputs()\<close> is the list holding exactly the output
  node of \<open>A\<close> (the accessor of every class returns its input in a one-element list),
  and the engine holds the same placeholders after the construction as before: none
  was allocated for the input of \<open>B\<close>.
\<close>

theorem chaining_input_is_upstream_output:
  assumes "call_inputs_hook c = Some (shape, get_outputs A)"
      and "construct r c s = Inr (B, s')"
  shows "get_inputs B = [get_outputs A] \<and> placeholders s' = placeholders s"
proof (cases c)
  case (NewDenoisingAutoencoder a)
  with assms obtain l where
    "DenoisingAutoencoder_init r a s = Inr (l, s')" and "B = DenoisingAutoencoder l"
    by (auto simp: lift_layer_Inr_iff)
  with assms NewDenoisingAutoencoder show ?thesis
    using dae_hooked_input by auto
next
  case (NewConv1D a)
  with assms obtain l where "Conv1D_init r a s = Inr (l, s')" and "B = Conv1D l"
    by (auto simp: lift_layer_Inr_iff)
  with assms NewConv1D show ?thesis
    using conv1d_hooked_input by auto
next
  case (NewConv2D a)
  with assms obtain l where "Conv2D_init r a s = Inr (l, s')" and "B = Conv2D l"
    by (auto simp: lift_layer_Inr_iff)
  with assms NewConv2D show ?thesis
    using conv2d_hooked_input by auto
next
  case (NewConvPoolLayer a)
  with assms obtain l where "ConvPoolLayer_init r a s = Inr (l, s')" and "B = ConvPoolLayer l"
    by (auto simp: lift_layer_Inr_iff)
  with assms NewConvPoolLayer show ?thesis
    using convpool_hooked_input by auto
qed

text \<open>
  Chains of every class, each construction returning. An autoencoder built on the
  output of an autoencoder; a \<open>Conv1D\<close> built on the output of a \<open>Conv1D\<close> (which
  has 2 channels and 3 columns); a \<open>ConvPoolLayer\<close> built on the output of a
  \<open>Conv2D\<close> (2 channels, 3 rows and columns), and a \<open>Conv2D\<close> built on the output
  of that \<open>ConvPoolLayer\<close> (4 channels, one row and column). The input of each layer
  is the output of the layer before it, and no placeholder was allocated for it.
\<close>

theorem chaining_input_is_upstream_output_witness:
  "(\<exists>A s B s'.
      construct std_env (NewDenoisingAutoencoder dae_kwargs) [] = Inr (A, s) \<and>
      construct std_env
        (NewDenoisingAutoencoder (dae_kwargs\<lparr>inputs_hook := Some (PInt 784, get_outputs A)\<rparr>)) s
        = Inr (B, s') \<and>
      get_inputs B = [get_outputs A] \<and> placeholders s' = placeholders s) \<and>
   (\<exists>A s B s'.
      construct std_env (NewConv1D conv1d_call) [] = Inr (A, s) \<and>
      construct std_env
        (NewConv1D (conv1d_kwargs\<lparr>
           inputs_hook := Some (PTuple [PInt 1, PInt 2, PInt 3], get_outputs A),
           filter_shape := PTuple [PInt 4, PInt 2, PInt 3],
           stride := PInt 1\<rparr>)) s
        = Inr (B, s') \<and>
      get_inputs B = [get_outputs A] \<and> placeholders s' = placeholders s) \<and>
   (\<exists>A s B s' C s''.
      construct std_env (NewConv2D conv2d_call) [] = Inr (A, s) \<and>
      construct std_env
        (NewConvPoolLayer (convpool_kwargs\<lparr>
           inputs_hook := Some (PTuple [PInt 1, PInt 2, PInt 3, PInt 3], get_outputs A),
           filter_shape := PTuple [PInt 4, PInt 2, PInt 3, PInt 3],
           convolution := PFun ''dnn_conv'',
           convstride := PInt 1,
           poolsize := PInt 1\<rparr>)) s
        = Inr (B, s') \<and>
      get_inputs B = [get_outputs A] \<and> placeholders s' = placeholders s \<and>
      construct std_env
        (NewConv2D (conv2d_kwargs\<lparr>
           inputs_hook := Some (PTuple [PInt 1, PInt 4, PInt 1, PInt 1], get_outputs B),
           filter_shape := PTuple [PInt 2, PInt 4, PInt 1, PInt 1],
           strides := PTuple [PInt 1, PInt 1]\<rparr>)) s'
        = Inr (C, s'') \<and>
      get_inputs C = [get_outputs B] \<and> placeholders s'' = placeholders s')"
proof (intro conjI)
  let ?a = "construct std_env (NewDenoisingAutoencoder dae_kwargs) []"
  let ?A = "fst (projr ?a)" and ?s = "snd (projr ?a)"
  let ?c = "NewDenoisingAutoencoder (dae_kwargs\<lparr>inputs_hook := Some (PInt 784, get_outputs ?A)\<rparr>)"
  let ?b = "construct std_env ?c ?s"
  have a: "?a = Inr (?A, ?s)"
    by (simp add: dae_eval)
  have b: "?b = Inr (fst (projr ?b), snd (projr ?b))"
    by (simp add: dae_eval)
  have "get_inputs (fst (projr ?b)) = [get_outputs ?A] \<and>
        placeholders (snd (projr ?b)) = placeholders ?s"
    by (rule chaining_input_is_upstream_output [where c = ?c and shape = "PInt 784", OF _ b])
       simp
  with a b show "\<exists>A s B s'.
      construct std_env (NewDenoisingAutoencoder dae_kwargs) [] = Inr (A, s) \<and>
      construct std_env
        (NewDenoisingAutoencoder (dae_kwargs\<lparr>inputs_hook := Some (PInt 784, get_outputs A)\<rparr>)) s
        = Inr (B, s') \<and>
      get_inputs B = [get_outputs A] \<and> placeholders s' = placeholders s"
    by blast
next
  let ?a = "construct std_env (NewConv1D conv1d_call) []"
  let ?A = "fst (projr ?a)" and ?s = "snd (projr ?a)"
  let ?c = "NewConv1D (conv1d_kwargs\<lparr>
           inputs_hook := Some (PTuple [PInt 1, PInt 2, PInt 3], get_outputs ?A),
           filter_shape := PTuple [PInt 4, PInt 2, PInt 3],
           stride := PInt 1\<rparr>)"
  let ?b = "construct std_env ?c ?s"
  have a: "?a = Inr (?A, ?s)"
    by (simp add: conv1d_eval)
  have b: "?b = Inr (fst (projr ?b), snd (projr ?b))"
    by (simp add: conv1d_eval)
  have "get_inputs (fst (projr ?b)) = [get_outputs ?A] \<and>
        placeholders (snd (projr ?b)) = placeholders ?s"
    by (rule chaining_input_is_upstream_output
          [where c = ?c and shape = "PTuple [PInt 1, PInt 2, PInt 3]", OF _ b]) simp
  with a b show "\<exists>A s B s'.
      construct std_env (NewConv1D conv1d_call) [] = Inr (A, s) \<and>
      construct std_env
        (NewConv1D (conv1d_kwargs\<lparr>
           inputs_hook := Some (PTuple [PInt 1, PInt 2, PInt 3], get_outputs A),
           filter_shape := PTuple [PInt 4, PInt 2, PInt 3],
           stride := PInt 1\<rparr>)) s
        = Inr (B, s') \<and>
      get_inputs B = [get_outputs A] \<and> placeholders s' = placeholders s"
    by blast
next
  let ?a = "construct std_env (NewConv2D conv2d_call) []"
  let ?A = "fst (projr ?a)" and ?s = "snd (projr ?a)"
  let ?c = "NewConvPoolLayer (convpool_kwargs\<lparr>
           inputs_hook := Some (PTuple [PInt 1, PInt 2, PInt 3, PInt 3], get_outputs ?A),
           filter_shape := PTuple [PInt 4, PInt 2, PInt 3, PInt 3],
           convolution := PFun ''dnn_conv'',
           convstride := PInt 1,
           poolsize := PInt 1\<rparr>)"
  let ?b = "construct std_env ?c ?s"
  let ?B = "fst (projr ?b)" and ?s' = "snd (projr ?b)"
  let ?d = "NewConv2D (conv2d_kwargs\<lparr>
           inputs_hook := Some (PTuple [PInt 1, PInt 4, PInt 1, PInt 1], get_outputs ?B),
           filter_shape := PTuple [PInt 2, PInt 4, PInt 1, PInt 1],
           strides := PTuple [PInt 1, PInt 1]\<rparr>)"
  let ?e = "construct std_env ?d ?s'"
  have a: "?a = Inr (?A, ?s)"
    by (simp add: conv2d_eval)
  have b: "?b = Inr (?B, ?s')"
    by (simp add: conv2d_eval convpool_eval)
  have e: "?e = Inr (fst (projr ?e), snd (projr ?e))"
    by (simp add: conv2d_eval convpool_eval)
  have ab: "get_inputs ?B = [get_outputs ?A] \<and> placeholders ?s' = placeholders ?s"
    by (rule chaining_input_is_upstream_output
          [where c = ?c and shape = "PTuple [PInt 1, PInt 2, PInt 3, PInt 3]", OF _ b]) simp
  have be: "get_inputs (fst (projr ?e)) = [get_outputs ?B] \<and>
            placeholders (snd (projr ?e)) = placeholders ?s'"
    by (rule chaining_input_is_upstream_output
          [where c = ?d and shape = "PTuple [PInt 1, PInt 4, PInt 1, PInt 1]", OF _ e]) simp
  from a b e ab be show "\<exists>A s B s' C s''.
      construct std_env (NewConv2D conv2d_call) [] = Inr (A, s) \<and>
      construct std_env
        (NewConvPoolLayer (convpool_kwargs\<lparr>
           inputs_hook := Some (PTuple [PInt 1, PInt 2, PInt 3, PInt 3], get_outputs A),
           filter_shape := PTuple [PInt 4, PInt 2, PInt 3, PInt 3],
           convolution := PFun ''dnn_conv'',
           convstride := PInt 1,
           poolsize := PInt 1\<rparr>)) s
        = Inr (B, s') \<and>
      get_inputs B = [get_outputs A] \<and> placeholders s' = placeholders s \<and>
      construct std_env
        (NewConv2D (conv2d_kwargs\<lparr>
           inputs_hook := Some (PTuple [PInt 1, PInt 4, PInt 1, PInt 1], get_outputs B),
           filter_shape := PTuple [PInt 2, PInt 4, PInt 1, PInt 1],
           strides := PTuple [PInt 1, PInt 1]\<rparr>)) s'
        = Inr (C, s'') \<and>
      get_inputs C = [get_outputs B] \<and> placeholders s'' = placeholders s'"
    by blast
qed

section \<open>Resolving options\<close>

text \<open>
  What the idiom \<open>value = value or self.args.get(name)\<close> does: a truthy constructor
  argument is used; otherwise the entry of \<open>self.args\<close> is, which is the supplied
  configuration's when it has the key and the default's when it has not.
\<close>

lemma truthy_argument_used: "truthy v \<Longrightarrow> py_or v (dict_get args k) = v"
  by (simp add: py_or_def)

lemma falsy_argument_dropped: "\<not> truthy v \<Longrightarrow> py_or v (dict_get args k) = dict_get args k"
  by (simp add: py_or_def)

lemma config_over_defaults:
  "c k = Some v \<Longrightarrow> dict_get (merge_args c d) k = v"
  by (simp add: dict_get_def merge_args_def)

lemma defaults_when_not_configured:
  "c k = None \<Longrightarrow> dict_get (merge_args c d) k = dict_get d k"
  by (simp add: dict_get_def merge_args_def map_add_def)

text \<open>
  Claim C2 (the code departs from it). Three constructions, evaluated.
  \<open>DenoisingAutoencoder(corruption_level=0)\<close> corrupts its training input at the
  default level 0.4: the explicit 0 is falsy and \<open>or\<close> drops it.
  \<open>Conv1D(..., weights_init='uniform', config={'weights_init': 'gaussian'})\<close> raises
  the error for an unrecognized scheme, naming \<open>gaussian\<close>: the second test of the
  parameter block reads the configured value, not the resolved one.
  \<open>Conv1D(..., config={'bias_init': 1.0})\<close> hands \<open>get_bias\<close> the value \<open>None\<close>:
  \<open>bias_init\<close> is never looked up in \<open>self.args\<close>.
\<close>

theorem explicit_falsy_argument_ignored:
  "map_sum id (get_train_cost \<circ> fst)
     (DenoisingAutoencoder_init std_env (dae_kwargs\<lparr>corruption_level := PInt 0\<rparr>) []) =
   Inr (Cost ''binary_crossentropy''
          (decode ''sigmoid''
             (encode ''tanh'' (SaltAndPepper (Placeholder 0 2 ''X'') (PFloat (4 / 10)))
                (Shared 1 ''W'' (Uniform None) (PTuple [PInt 784, PInt 1000]))
                (Shared 3 ''b1'' (Bias None) (PInt 1000)))
             (Shared 1 ''W'' (Uniform None) (PTuple [PInt 784, PInt 1000]))
             (Shared 2 ''b0'' (Bias None) (PInt 784)))
          (Placeholder 0 2 ''X'')) \<and>
   Conv1D_init std_env
     (conv1d_call\<lparr>weights_init := PStr ''uniform'',
                   config := [''weights_init'' \<mapsto> PStr ''gaussian'']\<rparr>) [] =
   Inl (UnsupportedInitError (PStr ''gaussian'')) \<and>
   map_sum id (get_params \<circ> Conv1D \<circ> fst)
     (Conv1D_init std_env (conv1d_call\<lparr>config := [''bias_init'' \<mapsto> PFloat 1]\<rparr>) []) =
   Inr [Shared 1 ''W'' (Uniform (Some (PStr ''montreal''))) (PTuple [PInt 2, PInt 1, PInt 3]),
        Shared 2 ''b'' (Bias (Some PNone)) (PTuple [PInt 2])]"
  by (simp add: dae_eval conv1d_eval encode_def decode_def get_train_cost_def)

section \<open>The length of a parameter hook\<close>

lemma dae_params_wrong:
  "hook_given h \<Longrightarrow> length (hook_items h) \<noteq> 3 \<Longrightarrow>
   dae_params h a b s = Inl (InvalidParameterCountError 3 (length (hook_items h)))"
  by (simp add: dae_params_def)

lemma conv_params_wrong:
  "hook_given h \<Longrightarrow> length (hook_items h) \<noteq> 2 \<Longrightarrow>
   conv_params args h wi wv wm ws fs nf bi s = Inl (InvalidParameterCountError 2 (length (hook_items h)))"
  by (simp add: conv_params_def)

lemma convpool_params_wrong:
  assumes "hook_given h" and "length (hook_items h) \<noteq> (if py_eq_int g 1 then 2 else 4)"
  shows "convpool_params r g fs ishape h bi s =
           (if py_eq_int g 1 \<or> \<not> isl (halve_shapes r fs ishape)
            then Inl (InvalidParameterCountError (if py_eq_int g 1 then 2 else 4)
                        (length (hook_items h)))
            else convpool_params r g fs ishape None bi s)"
  using assms
  by (cases "halve_shapes r fs ishape")
     (auto simp: convpool_params_def case_prod_beta hook_given_def)

lemma dae_wrong_count:
  assumes "params_hook a = Some ps" and "ps \<noteq> []" and "length ps \<noteq> 3"
  shows "DenoisingAutoencoder_init r a s =
           (if reaches_params r (NewDenoisingAutoencoder a) s
            then Inl (InvalidParameterCountError 3 (length ps))
            else DenoisingAutoencoder_init r (a\<lparr>params_hook := None\<rparr>) s)"
  using assms unfolding DenoisingAutoencoder_init_def Let_def case_prod_beta
  by (cases "get_activation_function r
               (py_or (hidden_activation a) (dict_get (self_args a) ''hidden_activation''))";
      cases "get_activation_function r
               (py_or (visible_activation a) (dict_get (self_args a) ''visible_activation''))";
      cases "get_cost_function r
               (py_or (cost_function a) (dict_get (self_args a) ''cost_function''))")
     (simp_all add: dae_params_wrong hook_given_Some)

lemma conv1d_wrong_count:
  assumes "params_hook a = Some ps" and "ps \<noteq> []" and "length ps \<noteq> 2"
  shows "Conv1D_init r a s =
           (if reaches_params r (NewConv1D a) s
            then Inl (InvalidParameterCountError 2 (length ps))
            else Conv1D_init r (a\<lparr>params_hook := None\<rparr>) s)"
  using assms unfolding Conv1D_init_def Let_def case_prod_beta
  by (cases "resolve_activation r (py_or (activation a) (dict_get (self_args a) ''activation''))";
      cases "py_index (py_or (filter_shape a) (dict_get (self_args a) ''filter_shape'')) 0";
      cases "py_index (py_or (filter_shape a) (dict_get (self_args a) ''filter_shape'')) 2")
     (simp_all add: conv_params_wrong hook_given_Some)

lemma conv2d_wrong_count:
  assumes "params_hook a = Some ps" and "ps \<noteq> []" and "length ps \<noteq> 2"
  shows "Conv2D_init r a s =
           (if reaches_params r (NewConv2D a) s
            then Inl (InvalidParameterCountError 2 (length ps))
            else Conv2D_init r (a\<lparr>params_hook := None\<rparr>) s)"
  using assms unfolding Conv2D_init_def Let_def case_prod_beta
  by (cases "resolve_activation r (py_or (activation a) (dict_get (self_args a) ''activation''))";
      cases "py_index (py_or (filter_shape a) (dict_get (self_args a) ''filter_shape'')) 0";
      cases "py_slice (py_or (filter_shape a) (dict_get (self_args a) ''filter_shape'')) 2 3")
     (simp_all add: conv_params_wrong hook_given_Some)

lemma convpool_wrong_count:
  assumes "params_hook a = Some ps" and "ps \<noteq> []"
      and "length ps \<noteq> (if py_eq_int (resolved_group a) 1 then 2 else 4)"
  shows "ConvPoolLayer_init r a s =
           (if reaches_params r (NewConvPoolLayer a) s
            then Inl (InvalidParameterCountError
                        (if py_eq_int (resolved_group a) 1 then 2 else 4) (length ps))
            else ConvPoolLayer_init r (a\<lparr>params_hook := None\<rparr>) s)"
proof -
  have g: "hook_given (params_hook a)"
       "length (hook_items (params_hook a)) \<noteq> (if py_eq_int (resolved_group a) 1 then 2 else 4)"
    using assms by (simp_all add: hook_given_Some)
  note w = convpool_params_wrong [OF g, unfolded assms(1) hook_items_Some]
  show ?thesis
    using assms(1) unfolding ConvPoolLayer_init_def Let_def case_prod_beta
    by (cases "resolve_activation r (py_or (activation a) (dict_get (self_args a) ''activation''))";
        cases "py_index (fst (input_block 4 a s)) 1")
       (simp_all add: w)
qed

text \<open>A call that does not get as far as the parameter block fails, hook or no hook.\<close>

lemma dae_early:
  "\<not> reaches_params r (NewDenoisingAutoencoder a) s \<Longrightarrow>
   isl (DenoisingAutoencoder_init r (a\<lparr>params_hook := h\<rparr>) s)"
  unfolding DenoisingAutoencoder_init_def Let_def case_prod_beta
  by (cases "get_activation_function r
               (py_or (hidden_activation a) (dict_get (self_args a) ''hidden_activation''))";
      cases "get_activation_function r
               (py_or (visible_activation a) (dict_get (self_args a) ''visible_activation''))";
      cases "get_cost_function r
               (py_or (cost_function a) (dict_get (self_args a) ''cost_function''))")
     simp_all

lemma conv1d_early:
  "\<not> reaches_params r (NewConv1D a) s \<Longrightarrow> isl (Conv1D_init r (a\<lparr>params_hook := h\<rparr>) s)"
  unfolding Conv1D_init_def Let_def case_prod_beta
  by (cases "resolve_activation r (py_or (activation a) (dict_get (self_args a) ''activation''))";
      cases "py_index (py_or (filter_shape a) (dict_get (self_args a) ''filter_shape'')) 0";
      cases "py_index (py_or (filter_shape a) (dict_get (self_args a) ''filter_shape'')) 2")
     simp_all

lemma conv2d_early:
  "\<not> reaches_params r (NewConv2D a) s \<Longrightarrow> isl (Conv2D_init r (a\<lparr>params_hook := h\<rparr>) s)"
  unfolding Conv2D_init_def Let_def case_prod_beta
  by (cases "resolve_activation r (py_or (activation a) (dict_get (self_args a) ''activation''))";
      cases "py_index (py_or (filter_shape a) (dict_get (self_args a) ''filter_shape'')) 0";
      cases "py_slice (py_or (filter_shape a) (dict_get (self_args a) ''filter_shape'')) 2 3")
     simp_all

lemma convpool_params_early:
  "\<not> py_eq_int g 1 \<Longrightarrow> isl (halve_shapes r fs ishape) \<Longrightarrow>
   isl (convpool_params r g fs ishape h bi s)"
  by (cases "halve_shapes r fs ishape") (simp_all add: convpool_params_def)

lemma convpool_early:
  assumes "\<not> reaches_params r (NewConvPoolLayer a) s"
  shows "isl (ConvPoolLayer_init r (a\<lparr>params_hook := h\<rparr>) s)"
proof (cases "resolve_activation r (py_or (activation a) (dict_get (self_args a) ''activation''))")
  case (Inl e)
  then show ?thesis
    unfolding ConvPoolLayer_init_def Let_def case_prod_beta by simp
next
  case act: (Inr f)
  show ?thesis
  proof (cases "py_index (fst (input_block 4 a s)) 1")
    case (Inl e)
    with act show ?thesis
      unfolding ConvPoolLayer_init_def Let_def case_prod_beta by simp
  next
    case ch: (Inr c)
    show ?thesis
    proof (cases "py_eq_int (resolved_group a) 1 \<or> py_eq_int (resolved_group a) 2")
      case False
      with act ch show ?thesis
        unfolding ConvPoolLayer_init_def Let_def case_prod_beta by simp
    next
      case True
      with assms act ch have g: "\<not> py_eq_int (resolved_group a) 1"
        and "isl (halve_shapes r
                   (np_asarray (py_or (filter_shape a) (dict_get (self_args a) ''filter_shape'')))
                   (np_asarray (fst (input_block 4 a s))))"
        by (auto split: if_splits)
      from convpool_params_early [OF this, of h "bias_init a" "snd (snd (input_block 4 a s))"]
      obtain e where
        "convpool_params r (resolved_group a)
           (np_asarray (py_or (filter_shape a) (dict_get (self_args a) ''filter_shape'')))
           (np_asarray (fst (input_block 4 a s))) h (bias_init a)
           (snd (snd (input_block 4 a s))) = Inl e"
        by (meson isl_def)
      with act ch True show ?thesis
        unfolding ConvPoolLayer_init_def Let_def case_prod_beta by simp
    qed
  qed
qed

text \<open>
  Claim C3, as amended. For each class, a \<open>params_hook\<close> that is not empty and whose
  length differs from the count the class requires makes the construction fail. When
  the call gets as far as the parameter block the error is
  \<open>InvalidParameterCountError\<close>, with the required and the found count, whatever the
  rest of the constructor would do; when a statement before that block raises, the
  construction raises what the same call without a hook raises.
\<close>

theorem wrong_parameter_count_rejected:
  assumes "call_params_hook c = Some ps" and "ps \<noteq> []" and "length ps \<noteq> required_count c"
  shows "construct r c s =
           (if reaches_params r c s
            then Inl (InvalidParameterCountError (required_count c) (length ps))
            else construct r (with_params_hook None c) s) \<and>
         isl (construct r c s) \<and>
         (reaches_params r c s \<or> isl (construct r (with_params_hook None c) s))"
proof -
  have eq: "construct r c s =
           (if reaches_params r c s
            then Inl (InvalidParameterCountError (required_count c) (length ps))
            else construct r (with_params_hook None c) s)"
  proof (cases c)
    case (NewDenoisingAutoencoder a)
    with assms have h: "params_hook a = Some ps" "length ps \<noteq> 3" by simp_all
    show ?thesis
      using NewDenoisingAutoencoder dae_wrong_count [OF h(1) assms(2) h(2), of r s] by simp
  next
    case (NewConv1D a)
    with assms have h: "params_hook a = Some ps" "length ps \<noteq> 2" by simp_all
    show ?thesis
      using NewConv1D conv1d_wrong_count [OF h(1) assms(2) h(2), of r s] by simp
  next
    case (NewConv2D a)
    with assms have h: "params_hook a = Some ps" "length ps \<noteq> 2" by simp_all
    show ?thesis
      using NewConv2D conv2d_wrong_count [OF h(1) assms(2) h(2), of r s] by simp
  next
    case (NewConvPoolLayer a)
    with assms have h: "params_hook a = Some ps"
      "length ps \<noteq> (if py_eq_int (resolved_group a) 1 then 2 else 4)" by simp_all
    show ?thesis
      using NewConvPoolLayer convpool_wrong_count [OF h(1) assms(2) h(2), of r s] by simp
  qed
  have early: "isl (construct r (with_params_hook None c) s)" if "\<not> reaches_params r c s"
    using that dae_early conv1d_early conv2d_early convpool_early by (cases c) simp_all
  show ?thesis
    using eq early by auto
qed

text \<open>
  One call of each class, and both groups of \<open>ConvPoolLayer\<close>. The \<open>Conv1D\<close> call
  names an unknown border mode and the \<open>Conv2D\<close> call the border mode 'same': both
  would raise later on in the constructor, and raise the count error first.
\<close>

theorem wrong_parameter_count_rejected_witness:
  "construct std_env
     (NewDenoisingAutoencoder (dae_kwargs\<lparr>params_hook := Some [kernel2, bias2, gb0, gb1]\<rparr>)) []
     = Inl (InvalidParameterCountError 3 4) \<and>
   construct std_env
     (NewConv1D (conv1d_call\<lparr>border_mode := PStr ''bogus'', params_hook := Some [kernel1]\<rparr>)) []
     = Inl (InvalidParameterCountError 2 1) \<and>
   construct std_env
     (NewConv2D (conv2d_call\<lparr>border_mode := PStr ''same'', params_hook := Some [kernel2, bias2, bias2]\<rparr>)) []
     = Inl (InvalidParameterCountError 2 3) \<and>
   construct std_env
     (NewConvPoolLayer (convpool_call\<lparr>params_hook := Some [gw0, gw1, gb0, gb1]\<rparr>)) []
     = Inl (InvalidParameterCountError 2 4) \<and>
   construct std_env
     (NewConvPoolLayer (convpool_call\<lparr>group := PInt 2, params_hook := Some [gw0, gb0]\<rparr>)) []
     = Inl (InvalidParameterCountError 4 2)"
proof (intro conjI)
  show "construct std_env
     (NewDenoisingAutoencoder (dae_kwargs\<lparr>params_hook := Some [kernel2, bias2, gb0, gb1]\<rparr>)) []
     = Inl (InvalidParameterCountError 3 4)"
    using wrong_parameter_count_rejected
      [where c = "NewDenoisingAutoencoder (dae_kwargs\<lparr>params_hook := Some [kernel2, bias2, gb0, gb1]\<rparr>)"
         and ps = "[kernel2, bias2, gb0, gb1]" and r = std_env and s = "[]"]
    by (simp add: dae_kwargs_def DenoisingAutoencoder_defaults_def eval_defs)
  show "construct std_env
     (NewConv1D (conv1d_call\<lparr>border_mode := PStr ''bogus'', params_hook := Some [kernel1]\<rparr>)) []
     = Inl (InvalidParameterCountError 2 1)"
    using wrong_parameter_count_rejected
      [where c = "NewConv1D (conv1d_call\<lparr>border_mode := PStr ''bogus'', params_hook := Some [kernel1]\<rparr>)"
         and ps = "[kernel1]" and r = std_env and s = "[]"]
    by (simp add: conv1d_call_def conv1d_kwargs_def Conv1D_defaults_def eval_defs)
  show "construct std_env
     (NewConv2D (conv2d_call\<lparr>border_mode := PStr ''same'', params_hook := Some [kernel2, bias2, bias2]\<rparr>)) []
     = Inl (InvalidParameterCountError 2 3)"
    using wrong_parameter_count_rejected
      [where c = "NewConv2D (conv2d_call\<lparr>border_mode := PStr ''same'',
                                            params_hook := Some [kernel2, bias2, bias2]\<rparr>)"
         and ps = "[kernel2, bias2, bias2]" and r = std_env and s = "[]"]
    by (simp add: conv2d_call_def conv2d_kwargs_def Conv2D_defaults_def eval_defs)
  show "construct std_env
     (NewConvPoolLayer (convpool_call\<lparr>params_hook := Some [gw0, gw1, gb0, gb1]\<rparr>)) []
     = Inl (InvalidParameterCountError 2 4)"
    using wrong_parameter_count_rejected
      [where c = "NewConvPoolLayer (convpool_call\<lparr>params_hook := Some [gw0, gw1, gb0, gb1]\<rparr>)"
         and ps = "[gw0, gw1, gb0, gb1]" and r = std_env and s = "[]"]
    by (simp add: grouped_call_eval)
  show "construct std_env
     (NewConvPoolLayer (convpool_call\<lparr>group := PInt 2, params_hook := Some [gw0, gb0]\<rparr>)) []
     = Inl (InvalidParameterCountError 4 2)"
    using wrong_parameter_count_rejected
      [where c = "NewConvPoolLayer (convpool_call\<lparr>group := PInt 2, params_hook := Some [gw0, gb0]\<rparr>)"
         and ps = "[gw0, gb0]" and r = std_env and s = "[]"]
    by (simp add: grouped_call_eval np_asarray_def int64_def halve_shapes_def)
qed

text \<open>
  The claim as stated fails: an unknown activation name is reported before the length
  of the hook is looked at, so a hook of the wrong length does not always give the
  count error.
\<close>

theorem wrong_count_other_error_counterexample:
  "construct std_env
     (NewDenoisingAutoencoder
        (dae_kwargs\<lparr>params_hook := Some [kernel2, bias2], hidden_activation := PStr ''relufoo''\<rparr>)) [] =
   Inl (UnsupportedActivationError (PStr ''relufoo''))"
  by (simp add: dae_eval)

text \<open>
  An empty \<open>params_hook\<close> is falsy: the test \<open>if params_hook:\<close> takes it for no hook
  at all, as \<open>or\<close> does with a falsy argument, and the layer allocates its own
  parameters.
\<close>

lemma dae_params_empty [simp]: "dae_params (Some []) = dae_params None"
  by (simp add: dae_params_def hook_given_def fun_eq_iff)

lemma conv_params_empty [simp]: "conv_params args (Some []) = conv_params args None"
  by (simp add: conv_params_def hook_given_def fun_eq_iff)

lemma convpool_params_empty [simp]:
  "convpool_params r g fs ishape (Some []) = convpool_params r g fs ishape None"
  by (simp add: convpool_params_def hook_given_def fun_eq_iff)

lemma dae_empty_hook:
  "DenoisingAutoencoder_init r (a\<lparr>params_hook := Some []\<rparr>) s =
   DenoisingAutoencoder_init r (a\<lparr>params_hook := None\<rparr>) s"
  unfolding DenoisingAutoencoder_init_def Let_def case_prod_beta
  by (simp cong: option.case_cong)

lemma conv1d_empty_hook:
  "Conv1D_init r (a\<lparr>params_hook := Some []\<rparr>) s = Conv1D_init r (a\<lparr>params_hook := None\<rparr>) s"
  unfolding Conv1D_init_def Let_def case_prod_beta
  by (simp cong: option.case_cong)

lemma conv2d_empty_hook:
  "Conv2D_init r (a\<lparr>params_hook := Some []\<rparr>) s = Conv2D_init r (a\<lparr>params_hook := None\<rparr>) s"
  unfolding Conv2D_init_def Let_def case_prod_beta
  by (simp cong: option.case_cong)

lemma convpool_empty_hook:
  "ConvPoolLayer_init r (a\<lparr>params_hook := Some []\<rparr>) s =
   ConvPoolLayer_init r (a\<lparr>params_hook := None\<rparr>) s"
  unfolding ConvPoolLayer_init_def Let_def case_prod_beta
  by (simp cong: option.case_cong if_cong)

lemma empty_params_hook_absent:
  "construct r (with_params_hook (Some []) c) s = construct r (with_params_hook None c) s"
  by (cases c)
     (simp_all add: dae_empty_hook conv1d_empty_hook conv2d_empty_hook convpool_empty_hook)

section \<open>The denoising autoencoder's two paths\<close>

text \<open>
  Claim C5. Whenever the constructor returns a layer, its parameters are three tensors
  \<open>W\<close>, the visible bias and the hidden bias, its input is one tensor \<open>x\<close>, and
  \<open>get_train_cost()\<close> is the configured cost function (the name resolved from the
  argument and \<open>self.args\<close>, looked up in the registry) applied to the reconstruction
  and to \<open>x\<close> itself, where the training hiddens are the encoder applied to the
  corrupted \<open>x\<close> and the reconstruction is the decoder applied to those hiddens with
  the same \<open>W\<close>, transposed.
\<close>

theorem dae_training_path:
  assumes "DenoisingAutoencoder_init r a s = Inr (l, s')"
  shows "\<exists>W visible_bias hidden_bias x ha va cf.
     get_params (DenoisingAutoencoder l) = [W, visible_bias, hidden_bias] \<and>
     get_inputs (DenoisingAutoencoder l) = [x] \<and>
     get_activation_function r
       (py_or (hidden_activation a) (dict_get (self_args a) ''hidden_activation'')) = Inr ha \<and>
     get_activation_function r
       (py_or (visible_activation a) (dict_get (self_args a) ''visible_activation'')) = Inr va \<and>
     get_cost_function r
       (py_or (cost_function a) (dict_get (self_args a) ''cost_function'')) = Inr cf \<and>
     get_train_cost l =
       Cost cf
         (decode va
            (encode ha
               (SaltAndPepper x
                  (py_or (corruption_level a) (dict_get (self_args a) ''corruption_level'')))
               W hidden_bias)
            W visible_bias)
         x"
  using assms unfolding DenoisingAutoencoder_init_def
  by (auto simp: Let_def and_then_Inr_iff case_prod_beta encode_def decode_def get_train_cost_def)

text \<open>The autoencoder of the defaults: tanh, sigmoid, binary cross-entropy, level 0.4.\<close>

theorem dae_training_path_witness:
  "\<exists>l s'. DenoisingAutoencoder_init std_env dae_kwargs [] = Inr (l, s') \<and>
     (\<exists>W visible_bias hidden_bias x.
        get_params (DenoisingAutoencoder l) = [W, visible_bias, hidden_bias] \<and>
        get_inputs (DenoisingAutoencoder l) = [x] \<and>
        get_train_cost l =
          Cost ''binary_crossentropy''
            (decode ''sigmoid''
               (encode ''tanh'' (SaltAndPepper x (PFloat (4 / 10))) W hidden_bias)
               W visible_bias)
            x)"
proof -
  obtain l s' where a: "DenoisingAutoencoder_init std_env dae_kwargs [] = Inr (l, s')"
    by (simp add: dae_eval)
  from dae_training_path [OF a] obtain W visible_bias hidden_bias x ha va cf where
    "get_params (DenoisingAutoencoder l) = [W, visible_bias, hidden_bias]"
    "get_inputs (DenoisingAutoencoder l) = [x]"
    "get_activation_function std_env
       (py_or (hidden_activation dae_kwargs)
          (dict_get (self_args dae_kwargs) ''hidden_activation'')) = Inr ha"
    "get_activation_function std_env
       (py_or (visible_activation dae_kwargs)
          (dict_get (self_args dae_kwargs) ''visible_activation'')) = Inr va"
    "get_cost_function std_env
       (py_or (cost_function dae_kwargs)
          (dict_get (self_args dae_kwargs) ''cost_function'')) = Inr cf"
    "get_train_cost l =
       Cost cf
         (decode va
            (encode ha
               (SaltAndPepper x
                  (py_or (corruption_level dae_kwargs)
                     (dict_get (self_args dae_kwargs) ''corruption_level'')))
               W hidden_bias)
            W visible_bias)
         x"
    by blast
  then have "get_params (DenoisingAutoencoder l) = [W, visible_bias, hidden_bias] \<and>
        get_inputs (DenoisingAutoencoder l) = [x] \<and>
        get_train_cost l =
          Cost ''binary_crossentropy''
            (decode ''sigmoid''
               (encode ''tanh'' (SaltAndPepper x (PFloat (4 / 10))) W hidden_bias)
               W visible_bias)
            x"
    by (simp add: dae_kwargs_def DenoisingAutoencoder_defaults_def eval_defs)
  with a show ?thesis by blast
qed

text \<open>
  Claim C6. When the layer is built with a \<open>hiddens_hook = (shape, h)\<close>, the training
  cost is the same expression as without it: its hiddens are the encoder applied to
  the corrupted input, and \<open>h\<close> is not what it decodes. The hook is what
  \<open>get_hiddens()\<close> returns, the prediction output is the decoder applied to \<open>h\<close>, and
  the compiled predict function has \<open>h\<close> as its one input and that decoding as its
  output: nothing is corrupted on the way from its input to its output.
\<close>

theorem hiddens_hook_prediction_only:
  assumes "DenoisingAutoencoder_init r a s = Inr (l, s')"
      and "hiddens_hook a = Some (hidden_shape, h)"
  shows "\<exists>W visible_bias hidden_bias x ha va cf.
     get_params (DenoisingAutoencoder l) = [W, visible_bias, hidden_bias] \<and>
     get_inputs (DenoisingAutoencoder l) = [x] \<and>
     get_activation_function r
       (py_or (hidden_activation a) (dict_get (self_args a) ''hidden_activation'')) = Inr ha \<and>
     get_activation_function r
       (py_or (visible_activation a) (dict_get (self_args a) ''visible_activation'')) = Inr va \<and>
     get_cost_function r
       (py_or (cost_function a) (dict_get (self_args a) ''cost_function'')) = Inr cf \<and>
     get_train_cost l =
       Cost cf
         (decode va
            (encode ha
               (SaltAndPepper x
                  (py_or (corruption_level a) (dict_get (self_args a) ''corruption_level'')))
               W hidden_bias)
            W visible_bias)
         x \<and>
     get_hiddens l = h \<and>
     get_outputs (DenoisingAutoencoder l) = decode va h W visible_bias \<and>
     f_predict l = Function [h] (decode va h W visible_bias)"
  using assms unfolding DenoisingAutoencoder_init_def
  by (auto simp: Let_def and_then_Inr_iff case_prod_beta encode_def decode_def
      get_train_cost_def get_hiddens_def)

text \<open>The autoencoder of the defaults, given the tensor \<open>h0\<close> as its hiddens.\<close>

theorem hiddens_hook_prediction_only_witness:
  "\<exists>l s'. DenoisingAutoencoder_init std_env (dae_kwargs\<lparr>hiddens_hook := Some (PInt 1000, h0)\<rparr>) []
            = Inr (l, s') \<and>
     (\<exists>W visible_bias hidden_bias x.
        get_params (DenoisingAutoencoder l) = [W, visible_bias, hidden_bias] \<and>
        get_inputs (DenoisingAutoencoder l) = [x] \<and>
        get_train_cost l =
          Cost ''binary_crossentropy''
            (decode ''sigmoid''
               (encode ''tanh'' (SaltAndPepper x (PFloat (4 / 10))) W hidden_bias)
               W visible_bias)
            x \<and>
        get_hiddens l = h0 \<and>
        get_outputs (DenoisingAutoencoder l) = decode ''sigmoid'' h0 W visible_bias \<and>
        f_predict l = Function [h0] (decode ''sigmoid'' h0 W visible_bias))"
proof -
  obtain l s' where a:
    "DenoisingAutoencoder_init std_env (dae_kwargs\<lparr>hiddens_hook := Some (PInt 1000, h0)\<rparr>) []
       = Inr (l, s')"
    by (simp add: dae_eval)
  have h: "hiddens_hook (dae_kwargs\<lparr>hiddens_hook := Some (PInt 1000, h0)\<rparr>) = Some (PInt 1000, h0)"
    by simp
  from hiddens_hook_prediction_only [OF a h] have
    "\<exists>W visible_bias hidden_bias x.
        get_params (DenoisingAutoencoder l) = [W, visible_bias, hidden_bias] \<and>
        get_inputs (DenoisingAutoencoder l) = [x] \<and>
        get_train_cost l =
          Cost ''binary_crossentropy''
            (decode ''sigmoid''
               (encode ''tanh'' (SaltAndPepper x (PFloat (4 / 10))) W hidden_bias)
               W visible_bias)
            x \<and>
        get_hiddens l = h0 \<and>
        get_outputs (DenoisingAutoencoder l) = decode ''sigmoid'' h0 W visible_bias \<and>
        f_predict l = Function [h0] (decode ''sigmoid'' h0 W visible_bias)"
    by (simp add: dae_kwargs_def DenoisingAutoencoder_defaults_def eval_defs)
  with a show ?thesis by blast
qed


section \<open>The grouped convolution\<close>

lemma convpool_init_success:
  assumes "ConvPoolLayer_init r a s = Inr (l, s')"
  shows "\<exists>f c fs ishape w out.
    resolve_activation r (py_or (activation a) (dict_get (self_args a) ''activation'')) = Inr f \<and>
    py_index (fst (input_block 4 a s)) 1 = Inr c \<and>
    (py_eq_int (resolved_group a) 1 \<or> py_eq_int (resolved_group a) 2) \<and>
    convpool_params r (resolved_group a)
      (np_asarray (py_or (filter_shape a) (dict_get (self_args a) ''filter_shape'')))
      (np_asarray (fst (input_block 4 a s))) (params_hook a) (bias_init a)
      (snd (snd (input_block 4 a s))) = Inr (fs, ishape, w, params l, s') \<and>
    build_computation_graph r (convpool_self.truncate l) = Inr out \<and>
    input l = fst (snd (input_block 4 a s)) \<and>
    self_input_shape l = ishape \<and> self_filter_shape l = fs \<and> weights l = w \<and>
    channel l = c \<and> activation_func l = f \<and> self_group l = resolved_group a \<and>
    self_convolution l = py_or (convolution a) (dict_get (self_args a) ''convolution'') \<and>
    self_convstride l = py_or (convstride a) (dict_get (self_args a) ''convstride'') \<and>
    self_padsize l = py_or (padsize a) (dict_get (self_args a) ''padsize'') \<and>
    lrn l = py_or (local_response_normalization a)
              (dict_get (self_args a) ''local_response_normalization'') \<and>
    self_output l = (if truthy (lrn l) then CrossChannelNorm out else out)"
  using assms unfolding ConvPoolLayer_init_def Let_def case_prod_beta
  by (auto simp: and_then_Inr_iff convpool_self.defs convpool.defs split: if_splits)

lemma convpool_params_grouped:
  assumes "\<not> py_eq_int g 1"
      and "convpool_params r g fsa isa h bi s = Inr (fs, ishape, w, ps, s')"
  shows "\<exists>W0 W1 b0 b1.
     w = Grouped W0 W1 b0 b1 \<and> ps = [W0, b0, W1, b1] \<and>
     halve_shapes r fsa isa = Inr (fs, ishape) \<and>
     (\<not> hook_given h \<longrightarrow>
        (\<exists>n. np_get r fs 0 = Inr n \<and>
           W0 = Shared (length s) ''W0'' (Gaussian None None) (np_shape fs) \<and>
           W1 = Shared (length s + 1) ''W1'' (Gaussian None None) (np_shape fs) \<and>
           b0 = Shared (length s + 2) ''b0'' (Bias (Some bi)) n \<and>
           b1 = Shared (length s + 3) ''b1'' (Bias (Some bi)) n))"
  using assms
  by (auto simp: convpool_params_def and_then_Inr_iff Let_def fresh_shared_def case_prod_beta
      split: if_splits)

lemma halved_int_shape:
  assumes "halve_shapes r (np_asarray (PTuple (map PInt xs))) arr = Inr (a2, i2)"
      and "list_all int64 xs"
  shows "2 \<le> length xs \<and> a2 = IntArray (xs[0 := xs ! 0 div 2, Suc 0 := xs ! 1 div 2])"
proof (cases "xs = []")
  case True
  with assms(1) show ?thesis
    by (simp add: np_asarray_def halve_shapes_def)
next
  case False
  with assms(2) have "np_asarray (PTuple (map PInt xs)) = IntArray xs"
    by (simp add: np_asarray_int64)
  with assms(1) show ?thesis
    by (cases xs; cases "tl xs")
       (auto simp: halve_shapes_def and_then_Inr_iff split: if_splits)
qed

lemma build_graph_grouped:
  assumes "\<not> py_eq_int (self_group l) 1" and "weights l = Grouped W0 W1 b0 b1"
      and "build_computation_graph r l = Inr out"
  shows "\<exists>f half.
     self_convolution l = PFun f \<and> py_half (channel l) = Inr half \<and>
     conv_stage out =
       Concatenate
         [Add (Convolve f (Subtensor (input l) [Full, UpTo half, Full, Full]) W0
                 [(''subsample'', PTuple [self_convstride l, self_convstride l]),
                  (''border_mode'', PTuple [self_padsize l, self_padsize l])])
              (Dimshuffle b0 [None, Some 0, None, None]),
          Add (Convolve f (Subtensor (input l) [Full, From half, Full, Full]) W1
                 [(''subsample'', PTuple [self_convstride l, self_convstride l]),
                  (''border_mode'', PTuple [self_padsize l, self_padsize l])])
              (Dimshuffle b1 [None, Some 0, None, None])] 1 \<and>
     channels out = channels (conv_stage out)"
  using assms unfolding build_computation_graph_def Let_def
  by (auto simp: and_then_Inr_iff dest!: call_convolution_Inr)

lemma convpool_grouped_success:
  assumes "ConvPoolLayer_init r a s = Inr (l, s')" and "\<not> py_eq_int (resolved_group a) 1"
  shows "\<exists>W0 W1 b0 b1 out.
     py_eq_int (resolved_group a) 2 \<and> self_group l = resolved_group a \<and>
     weights l = Grouped W0 W1 b0 b1 \<and> params l = [W0, b0, W1, b1] \<and>
     halve_shapes r
       (np_asarray (py_or (filter_shape a) (dict_get (self_args a) ''filter_shape'')))
       (np_asarray (fst (input_block 4 a s)))
       = Inr (self_filter_shape l, self_input_shape l) \<and>
     (\<not> hook_given (params_hook a) \<longrightarrow>
        (\<exists>n k. np_get r (self_filter_shape l) 0 = Inr k \<and>
           W0 = Shared n ''W0'' (Gaussian None None) (np_shape (self_filter_shape l)) \<and>
           W1 = Shared (n + 1) ''W1'' (Gaussian None None) (np_shape (self_filter_shape l)) \<and>
           b0 = Shared (n + 2) ''b0'' (Bias (Some (bias_init a))) k \<and>
           b1 = Shared (n + 3) ''b1'' (Bias (Some (bias_init a))) k)) \<and>
     py_index (fst (input_block 4 a s)) 1 = Inr (channel l) \<and>
     build_computation_graph r (convpool_self.truncate l) = Inr out \<and>
     self_output l = (if truthy (lrn l) then CrossChannelNorm out else out)"
proof -
  from convpool_init_success [OF assms(1)] obtain out where
    s: "py_eq_int (resolved_group a) 1 \<or> py_eq_int (resolved_group a) 2"
       "convpool_params r (resolved_group a)
          (np_asarray (py_or (filter_shape a) (dict_get (self_args a) ''filter_shape'')))
          (np_asarray (fst (input_block 4 a s))) (params_hook a) (bias_init a)
          (snd (snd (input_block 4 a s)))
        = Inr (self_filter_shape l, self_input_shape l, weights l, params l, s')"
       "py_index (fst (input_block 4 a s)) 1 = Inr (channel l)"
       "self_group l = resolved_group a"
       "build_computation_graph r (convpool_self.truncate l) = Inr out"
       "self_output l = (if truthy (lrn l) then CrossChannelNorm out else out)"
    by auto
  from convpool_params_grouped [OF assms(2) s(2)] s assms(2) show ?thesis
    by fastforce
qed


text \<open>
  Claim C8, as amended. When a \<open>ConvPoolLayer\<close> is constructed and its resolved group
  is not 1, that group is 2; the input is cut along axis 1 at \<open>channel / 2\<close>, where
  \<open>channel\<close> is \<open>input_shape[1]\<close>; the lower part is convolved with \<open>W0\<close> and gets
  \<open>b0\<close>, the upper part is convolved with \<open>W1\<close> and gets \<open>b1\<close>, and the two results
  are concatenated along axis 1. When the layer allocates its parameters from a filter
  shape of ints (of 64 bits), the two pairs are distinct tensors and the output has
  \<open>2 * (filter_shape[0] div 2)\<close> channels, which is \<open>filter_shape[0]\<close> when that is
  even. A resolved group that is neither 1 nor 2 makes the construction fail, with
  \<open>InvalidGroupError\<close> when the activation and \<open>input_shape[1]\<close> resolve. (The group
  is resolved as \<open>group or self.args.get('group')\<close>.)
\<close>

theorem grouped_convolution:
  "(\<forall>l s'. ConvPoolLayer_init r a s = Inr (l, s') \<and> \<not> py_eq_int (resolved_group a) 1 \<longrightarrow>
      (\<exists>f W0 W1 b0 b1 half.
         py_eq_int (resolved_group a) 2 \<and>
         get_params (ConvPoolLayer l) = [W0, b0, W1, b1] \<and>
         py_index (fst (input_block 4 a s)) 1 = Inr (channel l) \<and>
         py_half (channel l) = Inr half \<and>
         conv_stage (get_outputs (ConvPoolLayer l)) =
           Concatenate
             [Add (Convolve f (Subtensor (input l) [Full, UpTo half, Full, Full]) W0
                     [(''subsample'', PTuple [self_convstride l, self_convstride l]),
                      (''border_mode'', PTuple [self_padsize l, self_padsize l])])
                  (Dimshuffle b0 [None, Some 0, None, None]),
              Add (Convolve f (Subtensor (input l) [Full, From half, Full, Full]) W1
                     [(''subsample'', PTuple [self_convstride l, self_convstride l]),
                      (''border_mode'', PTuple [self_padsize l, self_padsize l])])
                  (Dimshuffle b1 [None, Some 0, None, None])] 1 \<and>
         (\<forall>fs. \<not> hook_given (params_hook a) \<and>
               py_or (filter_shape a) (dict_get (self_args a) ''filter_shape'')
                 = PTuple (map PInt fs) \<and> list_all int64 fs \<longrightarrow>
               W0 \<noteq> W1 \<and> b0 \<noteq> b1 \<and>
               channels (get_outputs (ConvPoolLayer l)) = Some (2 * (fs ! 0 div 2))))) \<and>
   (\<not> py_eq_int (resolved_group a) 1 \<and> \<not> py_eq_int (resolved_group a) 2 \<longrightarrow>
      isl (ConvPoolLayer_init r a s) \<and>
      (\<forall>f c. resolve_activation r (py_or (activation a) (dict_get (self_args a) ''activation''))
                = Inr f \<and>
              py_index (fst (input_block 4 a s)) 1 = Inr c \<longrightarrow>
              ConvPoolLayer_init r a s = Inl (InvalidGroupError (resolved_group a))))"
proof (intro conjI allI impI)
  fix l s'
  assume h: "ConvPoolLayer_init r a s = Inr (l, s') \<and> \<not> py_eq_int (resolved_group a) 1"
  from convpool_grouped_success [of r a s l s'] h obtain W0 W1 b0 b1 out where
    g: "py_eq_int (resolved_group a) 2" "self_group l = resolved_group a"
       "weights l = Grouped W0 W1 b0 b1" "params l = [W0, b0, W1, b1]"
       "halve_shapes r
          (np_asarray (py_or (filter_shape a) (dict_get (self_args a) ''filter_shape'')))
          (np_asarray (fst (input_block 4 a s)))
          = Inr (self_filter_shape l, self_input_shape l)"
       "py_index (fst (input_block 4 a s)) 1 = Inr (channel l)"
       "build_computation_graph r (convpool_self.truncate l) = Inr out"
       "self_output l = (if truthy (lrn l) then CrossChannelNorm out else out)"
    and alloc: "\<not> hook_given (params_hook a) \<longrightarrow>
        (\<exists>n k. np_get r (self_filter_shape l) 0 = Inr k \<and>
           W0 = Shared n ''W0'' (Gaussian None None) (np_shape (self_filter_shape l)) \<and>
           W1 = Shared (n + 1) ''W1'' (Gaussian None None) (np_shape (self_filter_shape l)) \<and>
           b0 = Shared (n + 2) ''b0'' (Bias (Some (bias_init a))) k \<and>
           b1 = Shared (n + 3) ''b1'' (Bias (Some (bias_init a))) k)"
    by blast
  have t: "\<not> py_eq_int (self_group (convpool_self.truncate l)) 1"
          "weights (convpool_self.truncate l) = Grouped W0 W1 b0 b1"
    using h g(2,3) by (simp_all add: convpool_self.defs)
  from build_graph_grouped [OF t g(7)] obtain f half where
    b: "py_half (channel l) = Inr half"
       "conv_stage out =
         Concatenate
           [Add (Convolve f (Subtensor (input l) [Full, UpTo half, Full, Full]) W0
                   [(''subsample'', PTuple [self_convstride l, self_convstride l]),
                    (''border_mode'', PTuple [self_padsize l, self_padsize l])])
                (Dimshuffle b0 [None, Some 0, None, None]),
            Add (Convolve f (Subtensor (input l) [Full, From half, Full, Full]) W1
                   [(''subsample'', PTuple [self_convstride l, self_convstride l]),
                    (''border_mode'', PTuple [self_padsize l, self_padsize l])])
                (Dimshuffle b1 [None, Some 0, None, None])] 1"
       "channels out = channels (conv_stage out)"
    by (auto simp: convpool_self.defs)
  have c: "W0 \<noteq> W1 \<and> b0 \<noteq> b1 \<and>
           channels (get_outputs (ConvPoolLayer l)) = Some (2 * (fs ! 0 div 2))"
    if "\<not> hook_given (params_hook a) \<and>
        py_or (filter_shape a) (dict_get (self_args a) ''filter_shape'') = PTuple (map PInt fs) \<and>
        list_all int64 fs"
    for fs
  proof -
    from that g(5) have f: "2 \<le> length fs"
      "self_filter_shape l = IntArray (fs[0 := fs ! 0 div 2, Suc 0 := fs ! 1 div 2])"
      using halved_int_shape [of r fs] by auto
    with that alloc b g(8) show ?thesis
      by (auto simp: map_PInt_halved)
  qed
  have p: "get_params (ConvPoolLayer l) = [W0, b0, W1, b1]"
    using g(4) by simp
  have q: "conv_stage (get_outputs (ConvPoolLayer l)) =
           Concatenate
             [Add (Convolve f (Subtensor (input l) [Full, UpTo half, Full, Full]) W0
                     [(''subsample'', PTuple [self_convstride l, self_convstride l]),
                      (''border_mode'', PTuple [self_padsize l, self_padsize l])])
                  (Dimshuffle b0 [None, Some 0, None, None]),
              Add (Convolve f (Subtensor (input l) [Full, From half, Full, Full]) W1
                     [(''subsample'', PTuple [self_convstride l, self_convstride l]),
                      (''border_mode'', PTuple [self_padsize l, self_padsize l])])
                  (Dimshuffle b1 [None, Some 0, None, None])] 1"
    using g(8) b(2) by simp
  from g(1) p g(6) b(1) q c show "\<exists>f W0 W1 b0 b1 half.
         py_eq_int (resolved_group a) 2 \<and>
         get_params (ConvPoolLayer l) = [W0, b0, W1, b1] \<and>
         py_index (fst (input_block 4 a s)) 1 = Inr (channel l) \<and>
         py_half (channel l) = Inr half \<and>
         conv_stage (get_outputs (ConvPoolLayer l)) =
           Concatenate
             [Add (Convolve f (Subtensor (input l) [Full, UpTo half, Full, Full]) W0
                     [(''subsample'', PTuple [self_convstride l, self_convstride l]),
                      (''border_mode'', PTuple [self_padsize l, self_padsize l])])
                  (Dimshuffle b0 [None, Some 0, None, None]),
              Add (Convolve f (Subtensor (input l) [Full, From half, Full, Full]) W1
                     [(''subsample'', PTuple [self_convstride l, self_convstride l]),
                      (''border_mode'', PTuple [self_padsize l, self_padsize l])])
                  (Dimshuffle b1 [None, Some 0, None, None])] 1 \<and>
         (\<forall>fs. \<not> hook_given (params_hook a) \<and>
               py_or (filter_shape a) (dict_get (self_args a) ''filter_shape'')
                 = PTuple (map PInt fs) \<and> list_all int64 fs \<longrightarrow>
               W0 \<noteq> W1 \<and> b0 \<noteq> b1 \<and>
               channels (get_outputs (ConvPoolLayer l)) = Some (2 * (fs ! 0 div 2)))"
    by blast
next
  assume h: "\<not> py_eq_int (resolved_group a) 1 \<and> \<not> py_eq_int (resolved_group a) 2"
  then show "isl (ConvPoolLayer_init r a s)"
    unfolding ConvPoolLayer_init_def Let_def case_prod_beta
    by (simp add: and_then_def split: sum.splits)
next
  fix f c
  assume "\<not> py_eq_int (resolved_group a) 1 \<and> \<not> py_eq_int (resolved_group a) 2"
    and "resolve_activation r (py_or (activation a) (dict_get (self_args a) ''activation''))
           = Inr f \<and>
         py_index (fst (input_block 4 a s)) 1 = Inr c"
  then show "ConvPoolLayer_init r a s = Inl (InvalidGroupError (resolved_group a))"
    unfolding ConvPoolLayer_init_def Let_def case_prod_beta
    by simp
qed


text \<open>
  \<open>ConvPoolLayer(None, input_shape=(8, 4, 32, 32), filter_shape=(6, 4, 3, 3),
  convolution=dnn.dnn_conv, group=2)\<close>: 6 filters, the input cut at channel 2 of 4;
  and the same call with \<open>group=3\<close>.
\<close>

theorem grouped_convolution_witness:
  "\<exists>l s'. ConvPoolLayer_init std_env (convpool_call\<lparr>group := PInt 2\<rparr>) [] = Inr (l, s') \<and>
     (\<exists>W0 W1 b0 b1.
        get_params (ConvPoolLayer l) = [W0, b0, W1, b1] \<and> W0 \<noteq> W1 \<and> b0 \<noteq> b1 \<and>
        conv_stage (get_outputs (ConvPoolLayer l)) =
          Concatenate
            [Add (Convolve ''dnn_conv'' (Subtensor (input l) [Full, UpTo (PInt 2), Full, Full]) W0
                    [(''subsample'', PTuple [PInt 4, PInt 4]),
                     (''border_mode'', PTuple [PInt 0, PInt 0])])
                 (Dimshuffle b0 [None, Some 0, None, None]),
             Add (Convolve ''dnn_conv'' (Subtensor (input l) [Full, From (PInt 2), Full, Full]) W1
                    [(''subsample'', PTuple [PInt 4, PInt 4]),
                     (''border_mode'', PTuple [PInt 0, PInt 0])])
                 (Dimshuffle b1 [None, Some 0, None, None])] 1 \<and>
        channels (get_outputs (ConvPoolLayer l)) = Some 6) \<and>
   ConvPoolLayer_init std_env (convpool_call\<lparr>group := PInt 3\<rparr>) [] =
     Inl (InvalidGroupError (PInt 3))"
proof -
  let ?a = "convpool_call\<lparr>group := PInt 2\<rparr>"
  let ?m = "ConvPoolLayer_init std_env ?a []"
  let ?l = "fst (projr ?m)"
  have a: "?m = Inr (?l, snd (projr ?m))"
    by (simp add: convpool_eval)
  have g: "\<not> py_eq_int (resolved_group ?a) 1"
    by (simp add: grouped_call_eval)
  have f: "\<not> hook_given (params_hook ?a) \<and>
           py_or (filter_shape ?a) (dict_get (self_args ?a) ''filter_shape'')
           = PTuple (map PInt [6, 4, 3, 3]) \<and> list_all int64 [6, 4, 3, 3]"
    by (simp add: grouped_call_eval int64_def)
  from grouped_convolution [of std_env ?a "[]"] a g
  obtain fn W0 W1 b0 b1 half where
    c: "get_params (ConvPoolLayer ?l) = [W0, b0, W1, b1]"
       "py_index (fst (input_block 4 ?a [])) 1 = Inr (channel ?l)"
       "py_half (channel ?l) = Inr half"
       "conv_stage (get_outputs (ConvPoolLayer ?l)) =
          Concatenate
            [Add (Convolve fn (Subtensor (input ?l) [Full, UpTo half, Full, Full]) W0
                    [(''subsample'', PTuple [self_convstride ?l, self_convstride ?l]),
                     (''border_mode'', PTuple [self_padsize ?l, self_padsize ?l])])
                 (Dimshuffle b0 [None, Some 0, None, None]),
             Add (Convolve fn (Subtensor (input ?l) [Full, From half, Full, Full]) W1
                    [(''subsample'', PTuple [self_convstride ?l, self_convstride ?l]),
                     (''border_mode'', PTuple [self_padsize ?l, self_padsize ?l])])
                 (Dimshuffle b1 [None, Some 0, None, None])] 1"
    and d: "\<forall>fs. \<not> hook_given (params_hook ?a) \<and>
               py_or (filter_shape ?a) (dict_get (self_args ?a) ''filter_shape'')
                 = PTuple (map PInt fs) \<and> list_all int64 fs \<longrightarrow>
               W0 \<noteq> W1 \<and> b0 \<noteq> b1 \<and>
               channels (get_outputs (ConvPoolLayer ?l)) = Some (2 * (fs ! 0 div 2))"
    by blast
  from d f have e: "W0 \<noteq> W1 \<and> b0 \<noteq> b1 \<and> channels (get_outputs (ConvPoolLayer ?l)) = Some 6"
    by fastforce
  have v: "conv_stage (get_outputs (ConvPoolLayer ?l)) =
          Concatenate
            [Add (Convolve ''dnn_conv''
                    (Subtensor (input ?l) [Full, UpTo (PInt 2), Full, Full])
                    (Shared 1 ''W0'' (Gaussian None None) (PTuple [PInt 3, PInt 2, PInt 3, PInt 3]))
                    [(''subsample'', PTuple [PInt 4, PInt 4]),
                     (''border_mode'', PTuple [PInt 0, PInt 0])])
                 (Dimshuffle (Shared 3 ''b0'' (Bias (Some PNone)) (PInt 3))
                    [None, Some 0, None, None]),
             Add (Convolve ''dnn_conv''
                    (Subtensor (input ?l) [Full, From (PInt 2), Full, Full])
                    (Shared 2 ''W1'' (Gaussian None None) (PTuple [PInt 3, PInt 2, PInt 3, PInt 3]))
                    [(''subsample'', PTuple [PInt 4, PInt 4]),
                     (''border_mode'', PTuple [PInt 0, PInt 0])])
                 (Dimshuffle (Shared 4 ''b1'' (Bias (Some PNone)) (PInt 3))
                    [None, Some 0, None, None])] 1"
    by (simp add: convpool_eval)
  with c(4) have k: "conv_stage (get_outputs (ConvPoolLayer ?l)) =
          Concatenate
            [Add (Convolve ''dnn_conv''
                    (Subtensor (input ?l) [Full, UpTo (PInt 2), Full, Full]) W0
                    [(''subsample'', PTuple [PInt 4, PInt 4]),
                     (''border_mode'', PTuple [PInt 0, PInt 0])])
                 (Dimshuffle b0 [None, Some 0, None, None]),
             Add (Convolve ''dnn_conv''
                    (Subtensor (input ?l) [Full, From (PInt 2), Full, Full]) W1
                    [(''subsample'', PTuple [PInt 4, PInt 4]),
                     (''border_mode'', PTuple [PInt 0, PInt 0])])
                 (Dimshuffle b1 [None, Some 0, None, None])] 1"
    by simp
  have "ConvPoolLayer_init std_env (convpool_call\<lparr>group := PInt 3\<rparr>) [] =
     Inl (InvalidGroupError (PInt 3))"
    using grouped_convolution [of std_env "convpool_call\<lparr>group := PInt 3\<rparr>" "[]"]
    by (simp add: grouped_call_eval)
  with a c(1) e k show ?thesis by blast
qed

text \<open>
  The claim as stated fails on an odd filter count: with \<open>filter_shape=(5, 4, 3, 3)\<close>
  and \<open>group=2\<close>, and a convolution that takes the call, each half gets two filters
  and the output has four channels.
\<close>

theorem odd_filter_count_counterexample:
  "map_sum id (channels \<circ> get_outputs \<circ> fst)
     (construct std_env
        (NewConvPoolLayer
           (convpool_call\<lparr>filter_shape := PTuple [PInt 5, PInt 4, PInt 3, PInt 3],
                           group := PInt 2\<rparr>)) []) = Inr (Some 4)"
  by (simp add: convpool_eval)

section \<open>The halved shapes\<close>

lemma halved_int_shapes:
  assumes "halve_shapes r (np_asarray (PTuple (map PInt xs))) (np_asarray (PTuple (map PInt ys)))
             = Inr (a2, i2)"
      and "list_all int64 xs" and "list_all int64 ys"
  shows "2 \<le> length xs \<and> 2 \<le> length ys \<and>
         a2 = IntArray (xs[0 := xs ! 0 div 2, Suc 0 := xs ! 1 div 2]) \<and>
         i2 = IntArray (ys[0 := ys ! 0 div 2, Suc 0 := ys ! 1 div 2])"
proof -
  have x: "xs \<noteq> []"
    using assms(1) by (auto simp: np_asarray_def halve_shapes_def)
  have y: "ys \<noteq> []"
  proof
    assume "ys = []"
    then have "np_asarray (PTuple (map PInt ys)) = Unindexable (PTuple [])"
      by (simp add: np_asarray_def)
    with assms(1) show False
      by (auto simp: halve_shapes_def and_then_Inr_iff)
  qed
  from x y assms(2,3) have
    "np_asarray (PTuple (map PInt xs)) = IntArray xs"
    "np_asarray (PTuple (map PInt ys)) = IntArray ys"
    by (simp_all add: np_asarray_int64)
  with assms(1) show ?thesis
    by (auto simp: halve_shapes_IntArray split: if_splits)
qed

text \<open>
  Claim C10. When a \<open>ConvPoolLayer\<close> is constructed with a resolved group other than 1
  from shapes of ints (of 64 bits), both shapes have at least two entries, and the
  stored \<open>filter_shape\<close> and \<open>input_shape\<close> are the given ones with entries 0 and 1
  halved (floor division): the filter count and the channel count of the filters, and
  the batch axis and the channel axis of the input. Parameters the layer allocates
  itself are made after the halving: \<open>W0\<close> and \<open>W1\<close> with the halved filter shape,
  \<open>b0\<close> and \<open>b1\<close> with shape \<open>filter_shape[0] div 2\<close>.
\<close>

theorem grouped_shapes_halved:
  assumes "ConvPoolLayer_init r a s = Inr (l, s')"
      and "\<not> py_eq_int (resolved_group a) 1"
      and "py_or (filter_shape a) (dict_get (self_args a) ''filter_shape'') = PTuple (map PInt fs)"
      and "fst (input_block 4 a s) = PTuple (map PInt ishape)"
      and "list_all int64 fs" and "list_all int64 ishape"
  shows "2 \<le> length fs \<and> 2 \<le> length ishape \<and>
     self_filter_shape l = IntArray (fs[0 := fs ! 0 div 2, 1 := fs ! 1 div 2]) \<and>
     self_input_shape l = IntArray (ishape[0 := ishape ! 0 div 2, 1 := ishape ! 1 div 2]) \<and>
     (\<not> hook_given (params_hook a) \<longrightarrow>
        (\<exists>n. get_params (ConvPoolLayer l) =
           [Shared n ''W0'' (Gaussian None None)
              (PTuple (map PInt (fs[0 := fs ! 0 div 2, 1 := fs ! 1 div 2]))),
            Shared (n + 2) ''b0'' (Bias (Some (bias_init a))) (PInt (fs ! 0 div 2)),
            Shared (n + 1) ''W1'' (Gaussian None None)
              (PTuple (map PInt (fs[0 := fs ! 0 div 2, 1 := fs ! 1 div 2]))),
            Shared (n + 3) ''b1'' (Bias (Some (bias_init a))) (PInt (fs ! 0 div 2))]))"
proof -
  from convpool_grouped_success [OF assms(1,2)] obtain W0 W1 b0 b1 where
    g: "params l = [W0, b0, W1, b1]"
       "halve_shapes r (np_asarray (PTuple (map PInt fs))) (np_asarray (PTuple (map PInt ishape)))
          = Inr (self_filter_shape l, self_input_shape l)"
    and alloc: "\<not> hook_given (params_hook a) \<longrightarrow>
        (\<exists>n k. np_get r (self_filter_shape l) 0 = Inr k \<and>
           W0 = Shared n ''W0'' (Gaussian None None) (np_shape (self_filter_shape l)) \<and>
           W1 = Shared (n + 1) ''W1'' (Gaussian None None) (np_shape (self_filter_shape l)) \<and>
           b0 = Shared (n + 2) ''b0'' (Bias (Some (bias_init a))) k \<and>
           b1 = Shared (n + 3) ''b1'' (Bias (Some (bias_init a))) k)"
    unfolding assms(3,4) by blast
  note f = halved_int_shapes [OF g(2) assms(5,6)]
  have "\<exists>n. get_params (ConvPoolLayer l) =
           [Shared n ''W0'' (Gaussian None None)
              (PTuple (map PInt (fs[0 := fs ! 0 div 2, 1 := fs ! 1 div 2]))),
            Shared (n + 2) ''b0'' (Bias (Some (bias_init a))) (PInt (fs ! 0 div 2)),
            Shared (n + 1) ''W1'' (Gaussian None None)
              (PTuple (map PInt (fs[0 := fs ! 0 div 2, 1 := fs ! 1 div 2]))),
            Shared (n + 3) ''b1'' (Bias (Some (bias_init a))) (PInt (fs ! 0 div 2))]"
    if "\<not> hook_given (params_hook a)"
    using that alloc g(1) f by (auto simp: np_get_halved simp del: np_get.simps)
  with f show ?thesis by simp
qed

text \<open>
  \<open>ConvPoolLayer(None, input_shape=(8, 4, 32, 32), filter_shape=(6, 4, 3, 3),
  convolution=dnn.dnn_conv, group=2)\<close>: the shapes are stored as (3, 2, 3, 3) and
  (4, 2, 32, 32).
\<close>

theorem grouped_shapes_halved_witness:
  "\<exists>l s'. ConvPoolLayer_init std_env (convpool_call\<lparr>group := PInt 2\<rparr>) [] = Inr (l, s') \<and>
     self_filter_shape l = IntArray [3, 2, 3, 3] \<and>
     self_input_shape l = IntArray [4, 2, 32, 32] \<and>
     (\<exists>n. get_params (ConvPoolLayer l) =
        [Shared n ''W0'' (Gaussian None None) (PTuple [PInt 3, PInt 2, PInt 3, PInt 3]),
         Shared (n + 2) ''b0'' (Bias (Some PNone)) (PInt 3),
         Shared (n + 1) ''W1'' (Gaussian None None) (PTuple [PInt 3, PInt 2, PInt 3, PInt 3]),
         Shared (n + 3) ''b1'' (Bias (Some PNone)) (PInt 3)])"
proof -
  obtain l s' where a:
    "ConvPoolLayer_init std_env (convpool_call\<lparr>group := PInt 2\<rparr>) [] = Inr (l, s')"
    by (simp add: convpool_eval)
  have g: "\<not> py_eq_int (resolved_group (convpool_call\<lparr>group := PInt 2\<rparr>)) 1"
    by (simp add: grouped_call_eval)
  have f: "py_or (filter_shape (convpool_call\<lparr>group := PInt 2\<rparr>))
             (dict_get (self_args (convpool_call\<lparr>group := PInt 2\<rparr>)) ''filter_shape'')
           = PTuple (map PInt [6, 4, 3, 3])"
    by (simp add: grouped_call_eval)
  have i: "fst (input_block 4 (convpool_call\<lparr>group := PInt 2\<rparr>) [])
           = PTuple (map PInt [8, 4, 32, 32])"
    by (simp add: grouped_call_eval)
  have n: "\<not> hook_given (params_hook (convpool_call\<lparr>group := PInt 2\<rparr>))"
    by (simp add: grouped_call_eval)
  have b: "list_all int64 [6, 4, 3, 3]" "list_all int64 [8, 4, 32, 32]"
    by (simp_all add: int64_def)
  from grouped_shapes_halved [OF a g f i b] n a show ?thesis
    by (simp add: convpool_call_def convpool_kwargs_def)
qed

section \<open>A parameter hook and the weight initialization\<close>


lemma conv_params_hooked:
  "hook_given h \<Longrightarrow>
   conv_params args h wi wv wm ws fs nf bi s =
     (if length (hook_items h) = 2 then Inr ((hook_items h ! 0, hook_items h ! 1), s)
      else Inl (InvalidParameterCountError 2 (length (hook_items h))))"
  by (simp add: conv_params_def Let_def)



lemma input_block_shareds: "shareds (snd (snd (input_block k a s))) = shareds s"
  by (simp add: input_block_def fresh_placeholder_def shareds_def Let_def split: option.splits)

lemma conv1d_hooked_params:
  assumes "params_hook a = Some [W, b]" and "Conv1D_init r a s = Inr (l, s')"
  shows "params l = [W, b] \<and> shareds s' = shareds s"
  using assms unfolding Conv1D_init_def Let_def case_prod_beta
  by (auto simp: and_then_Inr_iff conv_params_hooked hook_given_def hook_items_def input_block_shareds)

lemma conv2d_hooked_params:
  assumes "params_hook a = Some [W, b]" and "Conv2D_init r a s = Inr (l, s')"
  shows "params l = [W, b] \<and> shareds s' = shareds s"
  using assms unfolding Conv2D_init_def Let_def case_prod_beta
  by (auto simp: and_then_Inr_iff conv_params_hooked hook_given_def hook_items_def input_block_shareds)






section \<open>The parameters of a hooked layer\<close>

lemma dae_params_hooked:
  "length ps = 3 \<Longrightarrow> dae_params (Some ps) a b s = Inr ((ps ! 0, ps ! 1, ps ! 2), s)"
  by (auto simp: dae_params_def hook_given_def Let_def)


text \<open>
  What \<open>get_params()\<close> returns for a hook of the required length: the hook itself,
  except in the grouped \<open>ConvPoolLayer\<close>, which returns its second and third entry
  in each other's place.
\<close>

lemma params_hook_adopted:
  assumes "call_params_hook c = Some ps" and "length ps = required_count c"
      and "construct r c s = Inr (B, s')"
  shows "get_params B =
     (case c of
        NewConvPoolLayer a \<Rightarrow>
          if py_eq_int (resolved_group a) 1 then ps else [ps ! 0, ps ! 2, ps ! 1, ps ! 3]
      | _ \<Rightarrow> ps)"
proof (cases c)
  case (NewDenoisingAutoencoder a)
  with assms obtain l where l: "DenoisingAutoencoder_init r a s = Inr (l, s')"
    "B = DenoisingAutoencoder l" "params_hook a = Some ps" "length ps = 3"
    by (auto simp: lift_layer_Inr_iff)
  then obtain x y z where "ps = [x, y, z]"
    by (cases ps; cases "tl ps"; cases "tl (tl ps)") auto
  with l NewDenoisingAutoencoder show ?thesis
    unfolding DenoisingAutoencoder_init_def Let_def case_prod_beta
    by (auto simp: and_then_Inr_iff dae_params_hooked)
next
  case (NewConv1D a)
  with assms obtain l where l: "Conv1D_init r a s = Inr (l, s')"
    "B = Conv1D l" "params_hook a = Some ps" "length ps = 2"
    by (auto simp: lift_layer_Inr_iff)
  then obtain x y where "ps = [x, y]"
    by (cases ps; cases "tl ps") auto
  with l NewConv1D show ?thesis
    using conv1d_hooked_params by auto
next
  case (NewConv2D a)
  with assms obtain l where l: "Conv2D_init r a s = Inr (l, s')"
    "B = Conv2D l" "params_hook a = Some ps" "length ps = 2"
    by (auto simp: lift_layer_Inr_iff)
  then obtain x y where "ps = [x, y]"
    by (cases ps; cases "tl ps") auto
  with l NewConv2D show ?thesis
    using conv2d_hooked_params by auto
next
  case (NewConvPoolLayer a)
  with assms obtain l where l: "ConvPoolLayer_init r a s = Inr (l, s')"
    "B = ConvPoolLayer l" "params_hook a = Some ps"
    "length ps = (if py_eq_int (resolved_group a) 1 then 2 else 4)"
    by (auto simp: lift_layer_Inr_iff)
  from convpool_init_success [OF l(1)] obtain fs ishape w where
    p: "convpool_params r (resolved_group a)
          (np_asarray (py_or (filter_shape a) (dict_get (self_args a) ''filter_shape'')))
          (np_asarray (fst (input_block 4 a s))) (Some ps) (bias_init a)
          (snd (snd (input_block 4 a s))) = Inr (fs, ishape, w, params l, s')"
    unfolding l(3) by blast
  show ?thesis
  proof (cases "py_eq_int (resolved_group a) 1")
    case True
    with l(4) obtain x y where "ps = [x, y]"
      by (cases ps; cases "tl ps") auto
    with p True l(2) NewConvPoolLayer show ?thesis
      by (auto simp: convpool_params_def hook_given_def Let_def and_then_Inr_iff)
  next
    case False
    with l(4) obtain x y z u where "ps = [x, y, z, u]"
      by (cases ps; cases "tl ps"; cases "tl (tl ps)"; cases "tl (tl (tl ps))") auto
    with p False l(2) NewConvPoolLayer show ?thesis
      by (auto simp: convpool_params_def hook_given_def Let_def and_then_Inr_iff case_prod_beta)
  qed
qed


text \<open>
  Claim C4 (the code departs from it). \<open>ConvPoolLayer\<close> with \<open>group=2\<close> unpacks the
  hook as \<open>W0, W1, b0, b1\<close> and stores \<open>[W0, b0, W1, b1]\<close>.
  \<open>ConvPoolLayer(None, input_shape=(8, 4, 32, 32), filter_shape=(6, 4, 3, 3),
  convolution=dnn.dnn_conv, group=2, params_hook=[gw0, gw1, gb0, gb1])\<close>, with two
  kernels of shape (3, 2, 3, 3) and two biases of 3 entries, returns a layer whose
  \<open>get_params()\<close> is \<open>[gw0, gb0, gw1, gb1]\<close>.
\<close>

theorem grouped_params_hook_reordered:
  "map_sum id (get_params \<circ> fst)
     (construct std_env
        (NewConvPoolLayer
           (convpool_call\<lparr>group := PInt 2, params_hook := Some [gw0, gw1, gb0, gb1]\<rparr>))
        []) =
   Inr [gw0, gb0, gw1, gb1]"
  by (simp add: convpool_eval gw0_def gw1_def)

section \<open>Border mode same\<close>

text \<open>
  In \<open>Conv1D\<close> the convolution is called with border mode \<open>full\<close> and its result is
  sliced on the last axis from \<open>shift = (filter_length - 1) // 2\<close> to
  \<open>input_shape[2] + shift\<close>, as the specification says. On an axis of extent
  \<open>n + k - 1\<close>, the extent of a full convolution at stride 1, that slice has extent
  \<open>n\<close>. The slice does not look at the stride: at a stride other than 1 the full
  convolution has fewer entries, and the slice is not of the input's extent.
\<close>

lemma conv1d_same_crops_full:
  assumes "Conv1D_init r a s = Inr (l, s')"
      and "py_eq_str (py_or (border_mode a) (dict_get (self_args a) ''border_mode'')) ''same''"
  shows "\<exists>f cv W b k shift n stop.
     get_params (Conv1D l) = [W, b] \<and>
     py_index (py_or (filter_shape a) (dict_get (self_args a) ''filter_shape'')) 2 = Inr k \<and>
     py_shift k = Inr shift \<and>
     py_index (fst (input_block 3 a s)) 2 = Inr n \<and>
     py_add n shift = Inr stop \<and>
     get_outputs (Conv1D l) =
       Activation f
         (Add (Subtensor
                 (Convolve cv (input l) W
                    [(''subsample'', PTuple [py_or (stride a) (dict_get (self_args a) ''stride'')]),
                     (''image_shape'', fst (input_block 3 a s)),
                     (''filter_shape'',
                      py_or (filter_shape a) (dict_get (self_args a) ''filter_shape'')),
                     (''border_mode'', PStr ''full'')])
                 [Full, Full, FromTo shift stop])
              (Dimshuffle b [None, Some 0, None]))"
proof -
  have b: "py_or (border_mode a) (dict_get (self_args a) ''border_mode'') = PStr ''same''"
    using assms(2) by (simp add: py_eq_str_def)
  show ?thesis
    using assms(1) unfolding Conv1D_init_def Let_def case_prod_beta b conv1d_graph_def
    by (auto simp: and_then_Inr_iff py_eq_str_def dest!: call_convolution_Inr)
qed

lemma same_crop_extent:
  assumes "1 \<le> k" and "0 \<le> n"
  shows "slice_extent (n + k - 1) ((k - 1) div 2) (n + (k - 1) div 2) = n"
  using assms by (simp add: slice_extent_def)


text \<open>
  In \<open>Conv2D\<close> the mode never returns: \<open>filter_size\<close> is the slice
  \<open>filter_shape[2:3]\<close>, of one entry at most, and \<open>filter_size[1]\<close> is read.
\<close>

lemma py_slice_2_3_index: "py_slice v 2 3 = Inr fsz \<Longrightarrow> py_index fsz 1 = Inl IndexError"
  by (cases v) auto

lemma conv2d_graph_same:
  assumes "py_slice v 2 3 = Inr filter_size"
  shows "conv2d_graph r (PStr ''same'') cv x W st ish fsh filter_size \<noteq> Inr c"
  using py_slice_2_3_index [OF assms] unfolding conv2d_graph_def
  by (simp add: py_eq_str_def and_then_def split: sum.splits)

lemma conv2d_same_never_returns:
  assumes "py_eq_str (py_or (border_mode a) (dict_get (self_args a) ''border_mode'')) ''same''"
  shows "isl (Conv2D_init r a s)"
proof (cases "Conv2D_init r a s")
  case (Inl e)
  then show ?thesis by simp
next
  case (Inr ok)
  have b: "py_or (border_mode a) (dict_get (self_args a) ''border_mode'') = PStr ''same''"
    using assms by (simp add: py_eq_str_def)
  from Inr have False
    unfolding Conv2D_init_def Let_def case_prod_beta b
    by (auto simp: and_then_Inr_iff conv2d_graph_same)
  then show ?thesis ..
qed


text \<open>
  Claim C7 (the code departs from it). \<open>Conv2D(None, input_shape=(1, 1, 5, 5),
  filter_shape=(2, 1, 3, 3), strides=(1, 1), border_mode='same')\<close> raises IndexError.
\<close>

theorem conv2d_same_raises:
  "Conv2D_init std_env (conv2d_call\<lparr>border_mode := PStr ''same''\<rparr>) [] = Inl IndexError"
  by (simp add: conv2d_eval)


end
